theory Spec2Isabelle
  imports Complex_Main "HOL-Library.Char_ord" "HOL-Library.List_Lexorder"
begin

section \<open>Values, exceptions and the world outside the process\<close>

text \<open>
  Python exceptions are values. The four classes the application raises or
  tests for have a constructor each, carrying the message; an exception of
  any other class (raised by joblib or by a model) carries its class name
  and its message.
\<close>

datatype exn =
    FileNotFoundError string
  | ValueError string
  | RuntimeError string
  | TypeError string
  | OtherException string string

text \<open>\<open>str(e)\<close> and \<open>type(e).__name__\<close>.\<close>

fun exn_str :: "exn \<Rightarrow> string" where
  "exn_str (FileNotFoundError m) = m"
| "exn_str (ValueError m) = m"
| "exn_str (RuntimeError m) = m"
| "exn_str (TypeError m) = m"
| "exn_str (OtherException c m) = m"

fun exn_type_name :: "exn \<Rightarrow> string" where
  "exn_type_name (FileNotFoundError m) = ''FileNotFoundError''"
| "exn_type_name (ValueError m) = ''ValueError''"
| "exn_type_name (RuntimeError m) = ''RuntimeError''"
| "exn_type_name (TypeError m) = ''TypeError''"
| "exn_type_name (OtherException c m) = c"

text \<open>
  A Python float is finite, NaN or an infinity; only this classification is
  used by the code, so the finite ones are read as reals. A feature the
  request carries is a Python value: an int, a bool (a subclass of int), a
  float, or something that is no number at all (the tests pass strings and
  \<open>None\<close>).
\<close>

datatype pyfloat = Finite real | NaN | PosInf | NegInf

datatype pyval = PyInt int | PyBool bool | PyFloat pyfloat | PyStr string | PyNone

text \<open>
  What \<open>model.predict(features)\<close> returns, after \<open>tolist()\<close> where the result
  has that method: a number (an int, a bool or a float), or a (nested) list
  of such. Artifacts whose outputs are of another kind (strings, say) are
  outside this model.
\<close>

datatype pynum = NInt int | NBool bool | NFloat pyfloat

datatype pyout = Num pynum | Lst "pyout list"

text \<open>\<open>Settings\<close>: the two fields the registry reads.\<close>

record Settings =
  models_dir :: string
  default_version :: string

text \<open>
  Everything the process reads from outside itself: the settings, the file
  system (\<open>os.path.exists\<close>, \<open>os.listdir\<close>), \<open>joblib.load\<close>, the loaded
  artifact's \<open>predict\<close> method and the successive readings of \<open>time.time()\<close>.
  The type \<open>'m\<close> is the type of deserialised artifacts.
\<close>

record 'm world =
  settings :: Settings
  path_exists :: "string \<Rightarrow> bool"
  listdir :: "string \<Rightarrow> string list"
  joblib_load :: "string \<Rightarrow> exn + 'm"
  model_predict :: "'m \<Rightarrow> pyval list \<Rightarrow> exn + pyout"
  time_time :: "nat \<Rightarrow> real"

text \<open>
  What the process does to the outside, in order: the calls of \<open>joblib.load\<close>
  and the metric updates of \<open>metrics.py\<close>.
\<close>

datatype event =
    JoblibLoad string
  | ModelLoadTime string real
  | ModelVersionActive string real
  | InferenceLatency string real
  | PredictionRequests string string
  | PredictionErrors string string

section \<open>config.py\<close>

text \<open>\<open>os.path.join\<close> of two components (POSIX).\<close>

definition path_join :: "string \<Rightarrow> string \<Rightarrow> string" where
  "path_join a b =
     (if b \<noteq> [] \<and> hd b = CHR ''/'' then b
      else if a = [] \<or> last a = CHR ''/'' then a @ b
      else a @ ''/'' @ b)"

definition get_model_path :: "'m world \<Rightarrow> string \<Rightarrow> string" where
  "get_model_path w ver =
     path_join (path_join (models_dir (settings w)) ver) ''model.pkl''"

definition get_available_versions :: "'m world \<Rightarrow> string list" where
  "get_available_versions w =
     (if \<not> path_exists w (models_dir (settings w)) then []
      else sort (filter (\<lambda>item. path_exists w (get_model_path w item))
                        (listdir w (models_dir (settings w)))))"

section \<open>model\_loader.py\<close>

text \<open>
  \<open>ModelRegistry\<close>: the cache \<open>_models\<close>, the active version and the load
  times. The process state is the one global registry instance together
  with the trace of outside effects and the number of clock readings taken
  so far.
\<close>

record 'm ModelRegistry =
  models :: "string \<rightharpoonup> 'm"
  active_version :: string
  load_times :: "string \<rightharpoonup> real"

record 'm process =
  model_registry :: "'m ModelRegistry"
  events :: "event list"
  clock_reads :: nat

definition emit :: "event \<Rightarrow> 'm process \<Rightarrow> 'm process" where
  "emit e s = s\<lparr>events := events s @ [e]\<rparr>"

text \<open>One call of \<open>time.time()\<close>.\<close>

definition now :: "'m world \<Rightarrow> 'm process \<Rightarrow> real \<times> 'm process" where
  "now w s = (time_time w (clock_reads s), s\<lparr>clock_reads := Suc (clock_reads s)\<rparr>)"

subsection \<open>metrics.py\<close>

definition record_inference_latency :: "string \<Rightarrow> real \<Rightarrow> 'm process \<Rightarrow> 'm process" where
  "record_inference_latency v d s = emit (InferenceLatency v d) s"

definition record_prediction_request :: "string \<Rightarrow> string \<Rightarrow> 'm process \<Rightarrow> 'm process" where
  "record_prediction_request v status s = emit (PredictionRequests v status) s"

definition record_prediction_error :: "string \<Rightarrow> string \<Rightarrow> 'm process \<Rightarrow> 'm process" where
  "record_prediction_error v error_type s = emit (PredictionErrors v error_type) s"

definition metrics_set_active_version :: "string \<Rightarrow> 'm process \<Rightarrow> 'm process" where
  "metrics_set_active_version v s =
     emit (ModelVersionActive v 1)
       (fold (\<lambda>u. emit (ModelVersionActive u 0)) [''v1'', ''v2'', ''v3'', ''v4'', ''v5''] s)"

definition record_model_load_time :: "string \<Rightarrow> real \<Rightarrow> 'm process \<Rightarrow> 'm process" where
  "record_model_load_time v d s = emit (ModelLoadTime v d) s"

subsection \<open>The registry\<close>

text \<open>\<open>ModelRegistry.__init__\<close>, run once when the module is imported.\<close>

definition init :: "'m world \<Rightarrow> 'm process" where
  "init w =
     metrics_set_active_version (default_version (settings w))
       \<lparr>model_registry =
          \<lparr>models = Map.empty,
           active_version = default_version (settings w),
           load_times = Map.empty\<rparr>,
        events = [],
        clock_reads = 0\<rparr>"

text \<open>
  \<open>_load_model\<close>. A missing file raises before anything is touched; a
  failing \<open>joblib.load\<close> is wrapped into a \<open>RuntimeError\<close>, after one clock
  reading and before any store into the two dictionaries.
\<close>

definition load_model :: "'m world \<Rightarrow> string \<Rightarrow> 'm process \<Rightarrow> (exn + unit) \<times> 'm process" where
  "load_model w ver s =
     (let model_path = get_model_path w ver in
      if \<not> path_exists w model_path
      then (Inl (FileNotFoundError (''Model not found: '' @ model_path)), s)
      else
        let (start_time, s1) = now w s;
            s2 = emit (JoblibLoad model_path) s1
        in case joblib_load w model_path of
             Inl e \<Rightarrow>
               (Inl (RuntimeError (''Failed to load model '' @ ver @ '': '' @ exn_str e)), s2)
           | Inr m \<Rightarrow>
               let (t, s3) = now w s2;
                   d = t - start_time;
                   r = model_registry s3;
                   s4 = s3\<lparr>model_registry :=
                           r\<lparr>models := (models r)(ver \<mapsto> m),
                             load_times := (load_times r)(ver \<mapsto> d)\<rparr>\<rparr>
               in (Inr (), record_model_load_time ver d s4))"

text \<open>
  \<open>get_model\<close>: the argument is \<open>None\<close> or a string, and
  \<open>version or self._active_version\<close> takes the active version for \<open>None\<close>
  and for the empty string.
\<close>

definition version_or :: "string option \<Rightarrow> string \<Rightarrow> string" where
  "version_or v d = (case v of None \<Rightarrow> d | Some u \<Rightarrow> if u = [] then d else u)"

definition get_model :: "'m world \<Rightarrow> string option \<Rightarrow> 'm process \<Rightarrow> (exn + 'm) \<times> 'm process" where
  "get_model w ver s =
     (let v = version_or ver (active_version (model_registry s)) in
      case models (model_registry s) v of
        Some m \<Rightarrow> (Inr m, s)
      | None \<Rightarrow>
          (case load_model w v s of
             (Inl e, s1) \<Rightarrow> (Inl e, s1)
           | (Inr u, s1) \<Rightarrow>
               (case models (model_registry s1) v of
                  Some m \<Rightarrow> (Inr m, s1)
                | None \<Rightarrow> (Inl (OtherException ''KeyError'' v), s1))))"

definition set_active_version :: "'m world \<Rightarrow> string \<Rightarrow> 'm process \<Rightarrow> bool \<times> 'm process" where
  "set_active_version w ver s =
     (if \<not> path_exists w (get_model_path w ver) then (False, s)
      else
        (True,
         metrics_set_active_version ver
           (s\<lparr>model_registry := (model_registry s)\<lparr>active_version := ver\<rparr>\<rparr>)))"

definition get_active_version :: "'m process \<Rightarrow> string" where
  "get_active_version s = active_version (model_registry s)"

definition is_version_loaded :: "'m process \<Rightarrow> string \<Rightarrow> bool" where
  "is_version_loaded s ver = (models (model_registry s) ver \<noteq> None)"

definition get_load_time :: "'m process \<Rightarrow> string \<Rightarrow> real option" where
  "get_load_time s ver = load_times (model_registry s) ver"

text \<open>
  \<open>clear_cache\<close>: \<open>if version:\<close> is false for \<open>None\<close> and for the empty
  string, and then both dictionaries are cleared.
\<close>

definition clear_cache :: "string option \<Rightarrow> 'm process \<Rightarrow> 'm process" where
  "clear_cache ver s =
     (let r = model_registry s in
      case ver of
        Some v \<Rightarrow>
          (if v \<noteq> []
           then s\<lparr>model_registry :=
                    r\<lparr>models := (models r)(v := None),
                      load_times := (load_times r)(v := None)\<rparr>\<rparr>
           else s\<lparr>model_registry := r\<lparr>models := Map.empty, load_times := Map.empty\<rparr>\<rparr>)
      | None \<Rightarrow> s\<lparr>model_registry := r\<lparr>models := Map.empty, load_times := Map.empty\<rparr>\<rparr>)"

section \<open>predict.py\<close>

text \<open>
  \<open>PredictionRequest\<close>, as the object the functions below receive. How the
  transport builds it from a request body is outside this model.
\<close>

record PredictionRequest =
  features :: "pyval list"
  version :: "string option"

text \<open>
  \<open>PredictionResponse\<close>. The constructor validates its arguments against the
  declared types (pydantic, first major version: the application imports
  \<open>BaseSettings\<close> from \<open>pydantic\<close>). The version is a \<open>str\<close> and the latency a
  \<open>float\<close>, as declared. The prediction is declared
  \<open>Union[int, float, List[Union[int, float]]]\<close>, and the members of a union
  are tried from left to right:
  \<^item> \<open>int\<close> keeps an int, and otherwise applies \<open>int(v)\<close>: a bool becomes 0 or
    1, a finite float is truncated towards zero, and NaN, an infinity or a
    list is refused;
  \<^item> \<open>float\<close> keeps a float and refuses a list;
  \<^item> the list type accepts a list each of whose items passes
    \<open>Union[int, float]\<close>.
  When every member refuses, the constructor raises a \<open>ValidationError\<close>; the
  lines of its message that list the single errors are left out here.
\<close>

record PredictionResponse =
  prediction :: pyout
  model_version :: string
  latency_ms :: real

text \<open>\<open>int(x)\<close> for a finite float \<open>x\<close>.\<close>

definition py_int :: "real \<Rightarrow> int" where
  "py_int x = (if 0 \<le> x then \<lfloor>x\<rfloor> else \<lceil>x\<rceil>)"

text \<open>\<open>Union[int, float]\<close> on a number.\<close>

fun int_or_float :: "pynum \<Rightarrow> pynum" where
  "int_or_float (NInt n) = NInt n"
| "int_or_float (NBool b) = NInt (if b then 1 else 0)"
| "int_or_float (NFloat (Finite x)) = NInt (py_int x)"
| "int_or_float (NFloat NaN) = NFloat NaN"
| "int_or_float (NFloat PosInf) = NFloat PosInf"
| "int_or_float (NFloat NegInf) = NFloat NegInf"

text \<open>\<open>Union[int, float]\<close> on an item of a list: a list is refused.\<close>

fun item_int_or_float :: "pyout \<Rightarrow> pyout option" where
  "item_int_or_float (Num a) = Some (Num (int_or_float a))"
| "item_int_or_float (Lst ys) = None"

text \<open>The validation of the \<open>prediction\<close> argument.\<close>

definition validate_prediction :: "pyout \<Rightarrow> exn + pyout" where
  "validate_prediction p =
     (case p of
        Num a \<Rightarrow> Inr (Num (int_or_float a))
      | Lst xs \<Rightarrow>
          (case those (map item_int_or_float xs) of
             Some ys \<Rightarrow> Inr (Lst ys)
           | None \<Rightarrow>
               Inl (OtherException ''ValidationError''
                      ''validation errors for PredictionResponse'')))"

text \<open>
  The two steps on the raw output: \<open>len(prediction)\<close> raises a \<open>TypeError\<close>
  on a number, and a list of length one is replaced by its element.
\<close>

definition unwrap_prediction :: "pyout \<Rightarrow> exn + pyout" where
  "unwrap_prediction raw =
     (case raw of
        Num x \<Rightarrow> Inl (TypeError ''object has no len()'')
      | Lst xs \<Rightarrow> Inr (if length xs = 1 then xs ! 0 else Lst xs))"

text \<open>
  The two \<open>except\<close> clauses of \<open>make_prediction\<close>: a \<open>FileNotFoundError\<close>
  becomes a \<open>ValueError\<close>, any other exception a \<open>RuntimeError\<close>.
\<close>

definition prediction_failed ::
  "exn \<Rightarrow> string \<Rightarrow> 'm process \<Rightarrow> (exn + PredictionResponse) \<times> 'm process" where
  "prediction_failed e v s =
     (case e of
        FileNotFoundError m \<Rightarrow>
          (Inl (ValueError (''Model version '' @ [CHR 0x27] @ v @ [CHR 0x27] @ '' not found'')),
           record_prediction_error v ''model_not_found'' s)
      | _ \<Rightarrow>
          (Inl (RuntimeError (''Prediction failed: '' @ exn_str e)),
           record_prediction_error v (exn_type_name e) s))"

text \<open>
  \<open>make_prediction\<close>. The features reach the model as one row
  (\<open>np.array(...).reshape(1, -1)\<close>). The response is constructed last, inside
  the \<open>try\<close> and after the two metrics of a success have been recorded.
\<close>

definition make_prediction ::
  "'m world \<Rightarrow> PredictionRequest \<Rightarrow> 'm process \<Rightarrow> (exn + PredictionResponse) \<times> 'm process" where
  "make_prediction w request s =
     (let (start_time, s0) = now w s;
          v = version_or (version request) (get_active_version s0)
      in case get_model w (Some v) s0 of
           (Inl e, s1) \<Rightarrow> prediction_failed e v s1
         | (Inr model, s1) \<Rightarrow>
             (case model_predict w model (features request) of
                Inl e \<Rightarrow> prediction_failed e v s1
              | Inr raw \<Rightarrow>
                  (case unwrap_prediction raw of
                     Inl e \<Rightarrow> prediction_failed e v s1
                   | Inr p \<Rightarrow>
                       let (t, s2) = now w s1;
                           ms = (t - start_time) * 1000;
                           s3 = record_inference_latency v (ms / 1000) s2;
                           s4 = record_prediction_request v ''success'' s3
                       in case validate_prediction p of
                            Inl e \<Rightarrow> prediction_failed e v s4
                          | Inr q \<Rightarrow>
                              (Inr \<lparr>prediction = q, model_version = v, latency_ms = ms\<rparr>,
                               s4))))"

text \<open>
  \<open>validate_features\<close>: \<open>isinstance(feature, (int, float))\<close>, \<open>np.isnan\<close> and
  \<open>np.isinf\<close>, tested in this order for each feature in turn, each test only
  when the one before it has not decided.

  numpy converts its argument to an array first. A float, a bool and an int
  that fits a native integer type (from \<open>-2^63\<close> to \<open>2^64 - 1\<close>) get a numeric
  type, and the two functions answer; any other int, a string and \<open>None\<close> get
  a type for which the two functions raise a \<open>TypeError\<close>. Nothing in
  \<open>validate_features\<close> or in its callers catches it.
\<close>

fun isinstance_int_float :: "pyval \<Rightarrow> bool" where
  "isinstance_int_float (PyInt n) = True"
| "isinstance_int_float (PyBool b) = True"
| "isinstance_int_float (PyFloat x) = True"
| "isinstance_int_float (PyStr x) = False"
| "isinstance_int_float PyNone = False"

definition np_native_int :: "int \<Rightarrow> bool" where
  "np_native_int n = (- (2 ^ 63) \<le> n \<and> n < 2 ^ 64)"

definition ufunc_type_error :: "string \<Rightarrow> exn" where
  "ufunc_type_error name =
     TypeError (''ufunc '' @ [CHR 0x27] @ name @ [CHR 0x27] @
       '' not supported for the input types, and the inputs could not be safely '' @
       ''coerced to any supported types according to the casting rule '' @
       [CHR 0x27, CHR 0x27] @ ''safe'' @ [CHR 0x27, CHR 0x27])"

fun np_isnan :: "pyval \<Rightarrow> exn + bool" where
  "np_isnan (PyInt n) = (if np_native_int n then Inr False else Inl (ufunc_type_error ''isnan''))"
| "np_isnan (PyBool b) = Inr False"
| "np_isnan (PyFloat NaN) = Inr True"
| "np_isnan (PyFloat x) = Inr False"
| "np_isnan (PyStr x) = Inl (ufunc_type_error ''isnan'')"
| "np_isnan PyNone = Inl (ufunc_type_error ''isnan'')"

fun np_isinf :: "pyval \<Rightarrow> exn + bool" where
  "np_isinf (PyInt n) = (if np_native_int n then Inr False else Inl (ufunc_type_error ''isinf''))"
| "np_isinf (PyBool b) = Inr False"
| "np_isinf (PyFloat PosInf) = Inr True"
| "np_isinf (PyFloat NegInf) = Inr True"
| "np_isinf (PyFloat x) = Inr False"
| "np_isinf (PyStr x) = Inl (ufunc_type_error ''isinf'')"
| "np_isinf PyNone = Inl (ufunc_type_error ''isinf'')"

fun validate_loop :: "pyval list \<Rightarrow> exn + bool" where
  "validate_loop [] = Inr True"
| "validate_loop (feature # rest) =
     (if \<not> isinstance_int_float feature then Inr False
      else case np_isnan feature of
             Inl e \<Rightarrow> Inl e
           | Inr True \<Rightarrow> Inr False
           | Inr False \<Rightarrow>
               (case np_isinf feature of
                  Inl e \<Rightarrow> Inl e
                | Inr True \<Rightarrow> Inr False
                | Inr False \<Rightarrow> validate_loop rest))"

definition validate_features :: "pyval list \<Rightarrow> exn + bool" where
  "validate_features fs = (if fs = [] then Inr False else validate_loop fs)"

text \<open>
  The specification's words for an acceptable feature, "a finite numeric
  value": an int (a bool is one), or a float that is neither NaN nor an
  infinity. A feature is within numpy's reach when it is not an int beyond
  the native integer types.
\<close>

fun spec_finite_numeric :: "pyval \<Rightarrow> bool" where
  "spec_finite_numeric (PyInt n) = True"
| "spec_finite_numeric (PyBool b) = True"
| "spec_finite_numeric (PyFloat (Finite x)) = True"
| "spec_finite_numeric (PyFloat NaN) = False"
| "spec_finite_numeric (PyFloat PosInf) = False"
| "spec_finite_numeric (PyFloat NegInf) = False"
| "spec_finite_numeric (PyStr x) = False"
| "spec_finite_numeric PyNone = False"

fun np_native :: "pyval \<Rightarrow> bool" where
  "np_native (PyInt n) = np_native_int n"
| "np_native x = True"

definition predict_with_validation ::
  "'m world \<Rightarrow> PredictionRequest \<Rightarrow> 'm process \<Rightarrow> (exn + PredictionResponse) \<times> 'm process" where
  "predict_with_validation w request s =
     (case validate_features (features request) of
        Inl e \<Rightarrow> (Inl e, s)
      | Inr False \<Rightarrow> (Inl (ValueError ''Invalid features provided''), s)
      | Inr True \<Rightarrow> make_prediction w request s)"

text \<open>The class of the exception a call has raised, if it raised one.\<close>

definition raised :: "(exn + 'a) \<times> 's \<Rightarrow> string option" where
  "raised r = (case fst r of Inl e \<Rightarrow> Some (exn_type_name e) | Inr x \<Rightarrow> None)"

section \<open>main.py\<close>

text \<open>
  The \<open>/predict\<close> handler maps a \<open>ValueError\<close> to status 400 and a
  \<open>RuntimeError\<close> to status 500; any other exception is left to the global
  handler.
\<close>

datatype http_error = HTTPException nat string | Unhandled exn

definition predict ::
  "'m world \<Rightarrow> PredictionRequest \<Rightarrow> 'm process \<Rightarrow> (http_error + PredictionResponse) \<times> 'm process" where
  "predict w request s =
     (case predict_with_validation w request s of
        (Inr resp, s1) \<Rightarrow> (Inr resp, s1)
      | (Inl (ValueError m), s1) \<Rightarrow> (Inl (HTTPException 400 m), s1)
      | (Inl (RuntimeError m), s1) \<Rightarrow> (Inl (HTTPException 500 m), s1)
      | (Inl e, s1) \<Rightarrow> (Inl (Unhandled e), s1))"

text \<open>
  \<open>startup_event\<close>, the part that touches the registry: the default model is
  loaded and a \<open>FileNotFoundError\<close> is swallowed.
\<close>

definition startup_event :: "'m world \<Rightarrow> 'm process \<Rightarrow> (exn + unit) \<times> 'm process" where
  "startup_event w s =
     (case get_model w None s of
        (Inr m, s1) \<Rightarrow> (Inr (), s1)
      | (Inl (FileNotFoundError m), s1) \<Rightarrow> (Inr (), s1)
      | (Inl e, s1) \<Rightarrow> (Inl e, s1))"

section \<open>admin.py\<close>

text \<open>
  The three messages of \<open>set_active_version\<close>:
  \<open>f"Version '{version}' not found. Available versions: {available_versions}"\<close>,
  \<open>f"Successfully switched to version '{version}'"\<close> and
  \<open>f"Failed to switch to version '{version}'"\<close>, kept by their parts.
\<close>

datatype message =
    NotFoundMessage string "string list"
  | SwitchedMessage string
  | SwitchFailedMessage string

record VersionResponse =
  success :: bool
  message :: message
  response_active_version :: string

definition admin_set_active_version ::
  "'m world \<Rightarrow> string \<Rightarrow> 'm process \<Rightarrow> VersionResponse \<times> 'm process" where
  "admin_set_active_version w ver s =
     (let available_versions = get_available_versions w in
      if ver \<notin> set available_versions
      then (\<lparr>success = False,
             message = NotFoundMessage ver available_versions,
             response_active_version = get_active_version s\<rparr>, s)
      else
        (case set_active_version w ver s of
           (True, s1) \<Rightarrow>
             (\<lparr>success = True, message = SwitchedMessage ver,
               response_active_version = ver\<rparr>, s1)
         | (False, s1) \<Rightarrow>
             (\<lparr>success = False, message = SwitchFailedMessage ver,
               response_active_version = get_active_version s1\<rparr>, s1)))"

text \<open>\<open>clear_model_cache\<close>: the cache is cleared and the version echoed.\<close>

record ClearResponse =
  clear_success :: bool
  clear_message :: string
  cleared_version :: "string option"

definition clear_model_cache :: "string option \<Rightarrow> 'm process \<Rightarrow> ClearResponse \<times> 'm process" where
  "clear_model_cache ver s =
     (\<lparr>clear_success = True,
       clear_message = ''Cache cleared for '' @
          (case ver of None \<Rightarrow> ''all models'' | Some v \<Rightarrow> ''version '' @ v),
       cleared_version = ver\<rparr>,
      clear_cache ver s)"

section \<open>Sequences of calls\<close>

text \<open>
  The calls that reach the registry. Every handler is a coroutine without
  an \<open>await\<close> on anything that suspends, so the event loop runs each call to
  its end before the next one starts: the process is a sequence of calls,
  each against the outside world as it is at that moment.
\<close>

datatype call =
    GetModel "string option"
  | LoadModel string
  | SetActiveVersion string
  | ClearCache "string option"
  | MakePrediction PredictionRequest
  | Predict PredictionRequest
  | Startup
  | AdminSetActiveVersion string
  | AdminClearCache "string option"

fun step :: "'m world \<Rightarrow> call \<Rightarrow> 'm process \<Rightarrow> 'm process" where
  "step w (GetModel v) s = snd (get_model w v s)"
| "step w (LoadModel v) s = snd (load_model w v s)"
| "step w (SetActiveVersion v) s = snd (set_active_version w v s)"
| "step w (ClearCache v) s = clear_cache v s"
| "step w (MakePrediction r) s = snd (make_prediction w r s)"
| "step w (Predict r) s = snd (predict w r s)"
| "step w Startup s = snd (startup_event w s)"
| "step w (AdminSetActiveVersion v) s = snd (admin_set_active_version w v s)"
| "step w (AdminClearCache v) s = snd (clear_model_cache v s)"

fun run :: "('m world \<times> call) list \<Rightarrow> 'm process \<Rightarrow> 'm process" where
  "run [] s = s"
| "run ((w, c) # cs) s = run cs (step w c s)"

text \<open>A call that switches the active version: a switch to an existing artifact.\<close>

fun switches :: "'m world \<Rightarrow> call \<Rightarrow> bool" where
  "switches w (SetActiveVersion v) = path_exists w (get_model_path w v)"
| "switches w (AdminSetActiveVersion v) = (v \<in> set (get_available_versions w))"
| "switches w c = False"

text \<open>\<open>n\<close> calls of \<open>get_model\<close> for the same version, one after the other.\<close>

fun get_model_times ::
  "'m world \<Rightarrow> string option \<Rightarrow> nat \<Rightarrow> 'm process \<Rightarrow> (exn + 'm) list \<times> 'm process" where
  "get_model_times w v 0 s = ([], s)"
| "get_model_times w v (Suc n) s =
     (case get_model w v s of
        (r, s1) \<Rightarrow> (case get_model_times w v n s1 of (rs, s2) \<Rightarrow> (r # rs, s2)))"

text \<open>
  \<open>n\<close> calls of \<open>make_prediction\<close> with the same request, one after the other.
\<close>

fun make_prediction_times ::
  "'m world \<Rightarrow> PredictionRequest \<Rightarrow> nat \<Rightarrow> 'm process
     \<Rightarrow> (exn + PredictionResponse) list \<times> 'm process" where
  "make_prediction_times w r 0 s = ([], s)"
| "make_prediction_times w r (Suc n) s =
     (case make_prediction w r s of
        (x, s1) \<Rightarrow> (case make_prediction_times w r n s1 of (xs, s2) \<Rightarrow> (x # xs, s2)))"

text \<open>
  What the caller of a prediction receives, the latency apart: the
  exception, or the prediction and the version that made it.
\<close>

definition prediction_outcome :: "exn + PredictionResponse \<Rightarrow> exn + pyout \<times> string" where
  "prediction_outcome x =
     (case x of Inl e \<Rightarrow> Inl e | Inr resp \<Rightarrow> Inr (prediction resp, model_version resp))"

text \<open>
  The exception \<open>make_prediction\<close> raises for an exception \<open>e\<close> caught in its
  body, and the outcome of serving a request with the loaded artifact \<open>m\<close>
  under the version \<open>v\<close>.
\<close>

definition prediction_error :: "exn \<Rightarrow> string \<Rightarrow> exn" where
  "prediction_error e v =
     (case e of
        FileNotFoundError m \<Rightarrow>
          ValueError (''Model version '' @ [CHR 0x27] @ v @ [CHR 0x27] @ '' not found'')
      | _ \<Rightarrow> RuntimeError (''Prediction failed: '' @ exn_str e))"

definition served :: "'m world \<Rightarrow> 'm \<Rightarrow> PredictionRequest \<Rightarrow> string \<Rightarrow> exn + pyout \<times> string" where
  "served w m r v =
     (case model_predict w m (features r) of
        Inl e \<Rightarrow> Inl (prediction_error e v)
      | Inr raw \<Rightarrow>
          (case unwrap_prediction raw of
             Inl e \<Rightarrow> Inl (prediction_error e v)
           | Inr p \<Rightarrow>
               (case validate_prediction p of
                  Inl e \<Rightarrow> Inl (prediction_error e v)
                | Inr q \<Rightarrow> Inr (q, v))))"

text \<open>
  What a fetch of the version \<open>v\<close> gives in the state \<open>s\<close>, and what a
  prediction for the version \<open>v\<close> gives there, said in terms of the cache and
  of the outside world: the cached artifact of \<open>v\<close> if there is one, otherwise
  the artifact in the file of \<open>v\<close>, or the error for the missing or the broken
  file of \<open>v\<close>.
\<close>

definition fetch_outcome :: "'m world \<Rightarrow> 'm process \<Rightarrow> string \<Rightarrow> exn + 'm" where
  "fetch_outcome w s v =
     (case models (model_registry s) v of
        Some m \<Rightarrow> Inr m
      | None \<Rightarrow>
          if \<not> path_exists w (get_model_path w v)
          then Inl (FileNotFoundError (''Model not found: '' @ get_model_path w v))
          else
            (case joblib_load w (get_model_path w v) of
               Inl e \<Rightarrow> Inl (RuntimeError (''Failed to load model '' @ v @ '': '' @ exn_str e))
             | Inr m \<Rightarrow> Inr m))"

definition serve_version ::
  "'m world \<Rightarrow> PredictionRequest \<Rightarrow> 'm process \<Rightarrow> string \<Rightarrow> exn + pyout \<times> string" where
  "serve_version w r s v =
     (case fetch_outcome w s v of
        Inl e \<Rightarrow> Inl (prediction_error e v)
      | Inr m \<Rightarrow> served w m r v)"

text \<open>How often \<open>joblib.load\<close> has been called on a path.\<close>

definition joblib_loads :: "string \<Rightarrow> 'm process \<Rightarrow> nat" where
  "joblib_loads p s = length (filter (\<lambda>e. e = JoblibLoad p) (events s))"

text \<open>The two dictionaries of the registry always have the same keys.\<close>

definition cache_consistent :: "'m process \<Rightarrow> bool" where
  "cache_consistent s =
     (\<forall>v. (models (model_registry s) v = None) = (load_times (model_registry s) v = None))"

section \<open>An example deployment\<close>

text \<open>
  A models directory with three good artifacts, one file that does not
  deserialise (\<open>v3\<close>) and one stray entry. Artifacts are named by strings:
  \<open>v1\<close> is a classifier that answers \<open>[1]\<close>, \<open>v2\<close> answers the one row
  \<open>[[0.1, 0.9]]\<close> (the output of \<open>test_prediction_with_array_output\<close>), and
  \<open>v4\<close> is a regressor that answers \<open>[2.75]\<close>.
\<close>

definition example_world :: "string world" where
  "example_world =
     \<lparr>settings = \<lparr>models_dir = ''models'', default_version = ''v1''\<rparr>,
      path_exists = (\<lambda>p. p = ''models'' \<or> p = ''models/v1/model.pkl''
                           \<or> p = ''models/v2/model.pkl'' \<or> p = ''models/v3/model.pkl''
                           \<or> p = ''models/v4/model.pkl''),
      listdir = (\<lambda>p. if p = ''models'' then [''v2'', ''notes'', ''v1'', ''v4'', ''v3''] else []),
      joblib_load = (\<lambda>p. if p = ''models/v1/model.pkl'' then Inr ''artifact-1''
                          else if p = ''models/v2/model.pkl'' then Inr ''artifact-2''
                          else if p = ''models/v4/model.pkl'' then Inr ''artifact-4''
                          else Inl (OtherException ''UnpicklingError'' ''invalid load key'')),
      model_predict = (\<lambda>m fs.
         if m = ''artifact-1'' then Inr (Lst [Num (NInt 1)])
         else if m = ''artifact-2''
           then Inr (Lst [Lst [Num (NFloat (Finite (1 / 10))), Num (NFloat (Finite (9 / 10)))]])
         else Inr (Lst [Num (NFloat (Finite (11 / 4)))])),
      time_time = (\<lambda>n. real n)\<rparr>"

text \<open>The example process after \<open>v1\<close> has been fetched once.\<close>

definition example_loaded :: "string process" where
  "example_loaded = snd (get_model example_world (Some ''v1'') (init example_world))"

text \<open>The example process after a switch to \<open>v3\<close>.\<close>

definition example_switched :: "string process" where
  "example_switched = snd (set_active_version example_world ''v3'' (init example_world))"

text \<open>The same deployment after the file of \<open>v3\<close> has been replaced by a good one.\<close>

definition example_world_repaired :: "string world" where
  "example_world_repaired =
     example_world\<lparr>joblib_load :=
        (\<lambda>p. if p = ''models/v3/model.pkl'' then Inr ''artifact-3''
             else joblib_load example_world p)\<rparr>"


section \<open>Basic facts\<close>

subsection \<open>What each call does to the registry\<close>

lemma emit_registry: "model_registry (emit e s) = model_registry s"
  by (simp add: emit_def)

lemma now_registry: "model_registry (snd (now w s)) = model_registry s"
  by (simp add: now_def)

lemma metrics_set_active_version_registry:
  "model_registry (metrics_set_active_version v s) = model_registry s"
  by (simp add: metrics_set_active_version_def emit_registry)

lemma load_model_missing:
  "\<not> path_exists w (get_model_path w v) \<Longrightarrow>
   load_model w v s = (Inl (FileNotFoundError (''Model not found: '' @ get_model_path w v)), s)"
  by (simp add: load_model_def)

lemma load_model_corrupt:
  "path_exists w (get_model_path w v) \<Longrightarrow> joblib_load w (get_model_path w v) = Inl e \<Longrightarrow>
   load_model w v s =
     (Inl (RuntimeError (''Failed to load model '' @ v @ '': '' @ exn_str e)),
      emit (JoblibLoad (get_model_path w v)) (snd (now w s)))"
  by (simp add: load_model_def Let_def split: prod.splits)

lemma load_model_ok:
  "path_exists w (get_model_path w v) \<Longrightarrow> joblib_load w (get_model_path w v) = Inr m \<Longrightarrow>
   load_model w v s =
     (Inr (),
      s\<lparr>model_registry :=
          (model_registry s)\<lparr>models := (models (model_registry s))(v \<mapsto> m),
             load_times := (load_times (model_registry s))
               (v \<mapsto> time_time w (Suc (clock_reads s)) - time_time w (clock_reads s))\<rparr>,
        events := events s @ [JoblibLoad (get_model_path w v),
             ModelLoadTime v (time_time w (Suc (clock_reads s)) - time_time w (clock_reads s))],
        clock_reads := Suc (Suc (clock_reads s))\<rparr>)"
  by (simp add: load_model_def Let_def now_def emit_def record_model_load_time_def)

lemma load_model_registry:
  "(model_registry (snd (load_model w v s)) = model_registry s \<and> (\<exists>e. fst (load_model w v s) = Inl e))
   \<or> (\<exists>m d. model_registry (snd (load_model w v s)) =
         (model_registry s)\<lparr>models := (models (model_registry s))(v \<mapsto> m),
                             load_times := (load_times (model_registry s))(v \<mapsto> d)\<rparr>
        \<and> fst (load_model w v s) = Inr ())"
proof (cases "path_exists w (get_model_path w v)")
  case False
  then show ?thesis by (simp add: load_model_missing)
next
  case True
  show ?thesis
  proof (cases "joblib_load w (get_model_path w v)")
    case (Inl e)
    with True show ?thesis by (simp add: load_model_corrupt emit_registry now_registry)
  next
    case (Inr m)
    with True show ?thesis by (simp add: load_model_ok) blast
  qed
qed

lemma load_model_active:
  "active_version (model_registry (snd (load_model w v s))) = active_version (model_registry s)"
  using load_model_registry [of w v s] by auto

lemma load_model_consistent:
  "cache_consistent s \<Longrightarrow> cache_consistent (snd (load_model w v s))"
  using load_model_registry [of w v s] by (auto simp: cache_consistent_def)

lemma get_model_snd:
  "snd (get_model w ver s) =
     (let v = version_or ver (active_version (model_registry s)) in
      if models (model_registry s) v = None then snd (load_model w v s) else s)"
  by (auto simp: get_model_def Let_def split: option.splits prod.splits sum.splits)

lemma get_model_active:
  "active_version (model_registry (snd (get_model w ver s))) = active_version (model_registry s)"
  by (simp add: get_model_snd Let_def load_model_active)

lemma get_model_consistent:
  "cache_consistent s \<Longrightarrow> cache_consistent (snd (get_model w ver s))"
  by (simp add: get_model_snd Let_def load_model_consistent)

lemma prediction_failed_registry:
  "model_registry (snd (prediction_failed e v s)) = model_registry s"
  by (cases e) (simp_all add: prediction_failed_def record_prediction_error_def emit_registry)

lemma make_prediction_registry:
  "model_registry (snd (make_prediction w r s)) =
   model_registry (snd (get_model w
      (Some (version_or (version r) (get_active_version s))) (snd (now w s))))"
  by (simp add: make_prediction_def Let_def now_def get_active_version_def
        prediction_failed_registry record_inference_latency_def record_prediction_request_def
        emit_registry split: prod.splits sum.splits)

lemma make_prediction_active:
  "active_version (model_registry (snd (make_prediction w r s))) = active_version (model_registry s)"
  by (simp add: make_prediction_registry get_model_active now_registry)

lemma make_prediction_consistent:
  "cache_consistent s \<Longrightarrow> cache_consistent (snd (make_prediction w r s))"
proof -
  assume "cache_consistent s"
  then have "cache_consistent (snd (now w s))"
    by (simp add: cache_consistent_def now_registry)
  then have "cache_consistent (snd (get_model w
      (Some (version_or (version r) (get_active_version s))) (snd (now w s))))"
    by (rule get_model_consistent)
  then show ?thesis
    by (simp add: cache_consistent_def make_prediction_registry)
qed

lemma predict_snd:
  "snd (predict w r s) = snd (predict_with_validation w r s)"
  by (simp add: predict_def split: prod.splits sum.splits exn.splits)

lemma predict_with_validation_snd:
  "snd (predict_with_validation w r s) =
     (if validate_features (features r) = Inr True then snd (make_prediction w r s) else s)"
  by (auto simp: predict_with_validation_def split: sum.splits bool.splits)

lemma startup_event_snd: "snd (startup_event w s) = snd (get_model w None s)"
  by (simp add: startup_event_def split: prod.splits sum.splits exn.splits)

lemma set_active_version_snd:
  "model_registry (snd (set_active_version w v s)) =
     (if path_exists w (get_model_path w v)
      then (model_registry s)\<lparr>active_version := v\<rparr> else model_registry s)"
  by (simp add: set_active_version_def metrics_set_active_version_registry)

lemma set_active_version_fst:
  "fst (set_active_version w v s) = path_exists w (get_model_path w v)"
  by (simp add: set_active_version_def)

lemma available_iff:
  "v \<in> set (get_available_versions w) \<longleftrightarrow>
   path_exists w (models_dir (settings w)) \<and> v \<in> set (listdir w (models_dir (settings w)))
   \<and> path_exists w (get_model_path w v)"
  by (auto simp: get_available_versions_def)

lemma admin_set_active_version_snd:
  "model_registry (snd (admin_set_active_version w v s)) =
     (if v \<in> set (get_available_versions w)
      then (model_registry s)\<lparr>active_version := v\<rparr> else model_registry s)"
  by (auto simp: admin_set_active_version_def Let_def set_active_version_def available_iff
        metrics_set_active_version_registry split: prod.splits bool.splits)

lemma admin_set_active_version_success:
  "success (fst (admin_set_active_version w v s)) = (v \<in> set (get_available_versions w))"
  by (auto simp: admin_set_active_version_def Let_def set_active_version_def available_iff
        split: prod.splits bool.splits)

lemma clear_cache_active:
  "active_version (model_registry (clear_cache v s)) = active_version (model_registry s)"
  by (simp add: clear_cache_def Let_def split: option.splits)

lemma clear_cache_consistent: "cache_consistent s \<Longrightarrow> cache_consistent (clear_cache v s)"
  by (simp add: clear_cache_def Let_def cache_consistent_def split: option.splits)

lemma step_active:
  "\<not> switches w c \<Longrightarrow> get_active_version (step w c s) = get_active_version s"
  by (cases c)
     (simp_all add: get_active_version_def get_model_active load_model_active
        set_active_version_snd clear_cache_active make_prediction_active predict_snd
        predict_with_validation_snd startup_event_snd admin_set_active_version_snd
        clear_model_cache_def)

lemma step_consistent: "cache_consistent s \<Longrightarrow> cache_consistent (step w c s)"
proof (cases c)
  case (SetActiveVersion v)
  assume "cache_consistent s"
  then show ?thesis
    by (simp add: SetActiveVersion cache_consistent_def set_active_version_snd)
next
  case (AdminSetActiveVersion v)
  assume "cache_consistent s"
  then show ?thesis
    by (simp add: AdminSetActiveVersion cache_consistent_def admin_set_active_version_snd)
qed (simp_all add: get_model_consistent load_model_consistent clear_cache_consistent
       make_prediction_consistent predict_snd predict_with_validation_snd startup_event_snd
       clear_model_cache_def)

lemma run_active:
  "\<forall>(w, c) \<in> set cs. \<not> switches w c \<Longrightarrow> get_active_version (run cs s) = get_active_version s"
  by (induction cs arbitrary: s) (auto simp: step_active)

lemma run_consistent: "cache_consistent s \<Longrightarrow> cache_consistent (run cs s)"
  by (induction cs arbitrary: s) (auto simp: step_consistent)

lemma init_consistent: "cache_consistent (init w)"
  by (simp add: init_def cache_consistent_def metrics_set_active_version_registry)

lemma reachable_consistent: "cache_consistent (run cs (init w))"
  by (simp add: run_consistent init_consistent)

lemma switches_iff_success:
  "switches w (SetActiveVersion v) = fst (set_active_version w v s)"
  "switches w (AdminSetActiveVersion v) = success (fst (admin_set_active_version w v s))"
  by (simp_all add: set_active_version_fst admin_set_active_version_success)

subsection \<open>Outcomes of a fetch\<close>

lemma version_or_empty: "version_or (Some []) d = version_or None d"
  by (simp add: version_or_def)

lemma version_or_idem: "version_or (Some (version_or x a)) a = version_or x a"
  by (auto simp: version_or_def split: option.splits)

lemma get_model_miss:
  "models (model_registry s) (version_or ver (active_version (model_registry s))) = None \<Longrightarrow>
   get_model w ver s =
     (case load_model w (version_or ver (active_version (model_registry s))) s of
        (Inl e, s1) \<Rightarrow> (Inl e, s1)
      | (Inr u, s1) \<Rightarrow>
          (case models (model_registry s1) (version_or ver (active_version (model_registry s))) of
             Some m \<Rightarrow> (Inr m, s1)
           | None \<Rightarrow> (Inl (OtherException ''KeyError''
                (version_or ver (active_version (model_registry s)))), s1)))"
  by (simp add: get_model_def Let_def)

lemma get_model_missing:
  assumes "models (model_registry s) v = None"
    and "v = version_or ver (active_version (model_registry s))"
    and "\<not> path_exists w (get_model_path w v)"
  shows "get_model w ver s =
     (Inl (FileNotFoundError (''Model not found: '' @ get_model_path w v)), s)"
  using assms by (simp add: get_model_miss load_model_missing)

lemma get_model_corrupt:
  assumes "models (model_registry s) v = None"
    and "v = version_or ver (active_version (model_registry s))"
    and "path_exists w (get_model_path w v)"
    and "joblib_load w (get_model_path w v) = Inl e"
  shows "get_model w ver s =
     (Inl (RuntimeError (''Failed to load model '' @ v @ '': '' @ exn_str e)),
      emit (JoblibLoad (get_model_path w v)) (snd (now w s)))"
  using assms by (simp add: get_model_miss load_model_corrupt)

lemma get_model_ok:
  assumes "models (model_registry s) v = None"
    and "v = version_or ver (active_version (model_registry s))"
    and "path_exists w (get_model_path w v)"
    and "joblib_load w (get_model_path w v) = Inr m"
  shows "get_model w ver s = (Inr m, snd (load_model w v s))"
  using assms by (simp add: get_model_miss load_model_ok)

lemma get_model_hit:
  assumes "models (model_registry s) v = Some m"
    and "v = version_or ver (active_version (model_registry s))"
  shows "get_model w ver s = (Inr m, s)"
  using assms by (simp add: get_model_def)

lemma get_model_Inr:
  assumes "get_model w ver s = (Inr m, s1)"
  shows "models (model_registry s1) (version_or ver (active_version (model_registry s))) = Some m"
  using assms
  by (auto simp: get_model_def Let_def split: option.splits prod.splits sum.splits)

lemma get_model_Inl:
  assumes "get_model w ver s = (Inl e, s')"
  shows "models (model_registry s) (version_or ver (active_version (model_registry s))) = None \<and>
         model_registry s' = model_registry s"
proof -
  let ?v = "version_or ver (active_version (model_registry s))"
  have miss: "models (model_registry s) ?v = None"
    using assms by (cases "models (model_registry s) ?v") (simp_all add: get_model_def)
  have s': "s' = snd (load_model w ?v s)"
    using assms get_model_snd [of w ver s] miss by (simp add: Let_def)
  from load_model_registry [of w ?v s] show ?thesis
  proof
    assume "model_registry (snd (load_model w ?v s)) = model_registry s \<and>
            (\<exists>e. fst (load_model w ?v s) = Inl e)"
    with miss s' show ?thesis by simp
  next
    assume "\<exists>m d. model_registry (snd (load_model w ?v s)) =
         (model_registry s)\<lparr>models := (models (model_registry s))(?v \<mapsto> m),
                             load_times := (load_times (model_registry s))(?v \<mapsto> d)\<rparr>
        \<and> fst (load_model w ?v s) = Inr ()"
    then obtain m d where
      r: "model_registry (snd (load_model w ?v s)) =
         (model_registry s)\<lparr>models := (models (model_registry s))(?v \<mapsto> m),
                             load_times := (load_times (model_registry s))(?v \<mapsto> d)\<rparr>"
      and f: "fst (load_model w ?v s) = Inr ()" by blast
    have "get_model w ver s = (Inr m, snd (load_model w ?v s))"
      using miss f r by (auto simp: get_model_miss split: prod.splits)
    with assms show ?thesis by simp
  qed
qed

lemma load_model_ok_cached:
  assumes "path_exists w (get_model_path w v)" and "joblib_load w (get_model_path w v) = Inr m"
  shows "models (model_registry (snd (load_model w v s))) v = Some m"
    and "active_version (model_registry (snd (load_model w v s))) = active_version (model_registry s)"
  by (simp_all add: load_model_ok [OF assms])

subsection \<open>Counting calls of the loader\<close>

lemma joblib_loads_emit:
  "joblib_loads p (emit e s) = (if e = JoblibLoad p then Suc (joblib_loads p s) else joblib_loads p s)"
  by (simp add: joblib_loads_def emit_def)

lemma joblib_loads_now: "joblib_loads p (snd (now w s)) = joblib_loads p s"
  by (simp add: joblib_loads_def now_def)

lemma load_model_loads:
  "path_exists w (get_model_path w v) \<Longrightarrow>
   joblib_loads (get_model_path w v) (snd (load_model w v s))
     = Suc (joblib_loads (get_model_path w v) s)"
  by (cases "joblib_load w (get_model_path w v)")
     (simp_all add: load_model_corrupt load_model_ok joblib_loads_emit joblib_loads_now,
      simp add: joblib_loads_def)

lemma get_model_times_hit:
  assumes "models (model_registry s) v = Some m"
    and "v = version_or ver (active_version (model_registry s))"
  shows "get_model_times w ver n s = (replicate n (Inr m), s)"
  by (induction n) (simp_all add: get_model_hit [OF assms])

lemma get_model_times_missing:
  assumes "models (model_registry s) v = None"
    and "v = version_or ver (active_version (model_registry s))"
    and "\<not> path_exists w (get_model_path w v)"
  shows "get_model_times w ver n s =
     (replicate n (Inl (FileNotFoundError (''Model not found: '' @ get_model_path w v))), s)"
  by (induction n) (simp_all add: get_model_missing [OF assms])

lemma get_model_times_corrupt:
  assumes "path_exists w (get_model_path w v)"
    and "joblib_load w (get_model_path w v) = Inl e"
  shows "models (model_registry s) v = None \<Longrightarrow>
         v = version_or ver (active_version (model_registry s)) \<Longrightarrow>
         fst (get_model_times w ver n s) =
           replicate n (Inl (RuntimeError (''Failed to load model '' @ v @ '': '' @ exn_str e))) \<and>
         model_registry (snd (get_model_times w ver n s)) = model_registry s \<and>
         joblib_loads (get_model_path w v) (snd (get_model_times w ver n s))
           = joblib_loads (get_model_path w v) s + n"
proof (induction n arbitrary: s)
  case 0
  show ?case by simp
next
  case (Suc n)
  let ?s1 = "emit (JoblibLoad (get_model_path w v)) (snd (now w s))"
  have g: "get_model w ver s =
     (Inl (RuntimeError (''Failed to load model '' @ v @ '': '' @ exn_str e)), ?s1)"
    using get_model_corrupt [OF Suc.prems assms] .
  have r: "model_registry ?s1 = model_registry s"
    by (simp add: emit_registry now_registry)
  have l: "joblib_loads (get_model_path w v) ?s1 = Suc (joblib_loads (get_model_path w v) s)"
    by (simp add: joblib_loads_emit joblib_loads_now)
  have ih: "fst (get_model_times w ver n ?s1) =
           replicate n (Inl (RuntimeError (''Failed to load model '' @ v @ '': '' @ exn_str e))) \<and>
         model_registry (snd (get_model_times w ver n ?s1)) = model_registry ?s1 \<and>
         joblib_loads (get_model_path w v) (snd (get_model_times w ver n ?s1))
           = joblib_loads (get_model_path w v) ?s1 + n"
  proof (rule Suc.IH)
    show "models (model_registry ?s1) v = None"
      using Suc.prems(1) by (simp add: emit_registry now_registry)
    show "v = version_or ver (active_version (model_registry ?s1))"
      using Suc.prems(2) by (simp add: emit_registry now_registry)
  qed
  obtain rs s2 where gt: "get_model_times w ver n ?s1 = (rs, s2)"
    by (cases "get_model_times w ver n ?s1") blast
  have "get_model_times w ver (Suc n) s =
     (Inl (RuntimeError (''Failed to load model '' @ v @ '': '' @ exn_str e)) # rs, s2)"
    by (simp add: g gt)
  with ih gt r l show ?case by simp
qed

subsection \<open>Successful predictions\<close>

lemma prediction_failed_not_Inr: "prediction_failed e v s \<noteq> (Inr resp, s')"
  by (cases e) (simp_all add: prediction_failed_def)

lemma make_prediction_Inr:
  assumes "make_prediction w r s = (Inr resp, s')"
  shows "\<exists>m raw p s1.
           get_model w (Some (version_or (version r) (get_active_version s))) (snd (now w s))
             = (Inr m, s1) \<and>
           model_predict w m (features r) = Inr raw \<and>
           unwrap_prediction raw = Inr p \<and>
           validate_prediction p = Inr (prediction resp) \<and>
           model_version resp = version_or (version r) (get_active_version s) \<and>
           model_registry s' = model_registry s1"
  using assms
  by (auto simp: make_prediction_def Let_def now_def get_active_version_def
        prediction_failed_not_Inr record_inference_latency_def record_prediction_request_def
        emit_registry split: prod.splits sum.splits)

lemma make_prediction_uses_cached:
  assumes "make_prediction w r s = (Inr resp, s')"
  shows "\<exists>m raw p. models (model_registry s') (model_version resp) = Some m \<and>
           model_predict w m (features r) = Inr raw \<and>
           unwrap_prediction raw = Inr p \<and>
           validate_prediction p = Inr (prediction resp)"
proof -
  let ?v = "version_or (version r) (get_active_version s)"
  from make_prediction_Inr [OF assms] obtain m raw p s1 where
    g: "get_model w (Some ?v) (snd (now w s)) = (Inr m, s1)"
    and p: "model_predict w m (features r) = Inr raw"
    and u: "unwrap_prediction raw = Inr p"
    and q: "validate_prediction p = Inr (prediction resp)"
    and v: "model_version resp = ?v"
    and r: "model_registry s' = model_registry s1"
    by blast
  from get_model_Inr [OF g]
  have "models (model_registry s1) ?v = Some m"
    by (simp add: now_registry get_active_version_def version_or_idem)
  with p u q v r show ?thesis by auto
qed

lemma predict_with_validation_Inr:
  "predict_with_validation w r s = (Inr resp, s') \<Longrightarrow> make_prediction w r s = (Inr resp, s')"
  by (simp add: predict_with_validation_def split: sum.splits bool.splits)

lemma predict_Inr:
  "predict w r s = (Inr resp, s') \<Longrightarrow> predict_with_validation w r s = (Inr resp, s')"
  by (auto simp: predict_def split: prod.splits sum.splits exn.splits)

lemma any_prediction_Inr:
  "make_prediction w r s = (Inr resp, s') \<or> predict_with_validation w r s = (Inr resp, s')
     \<or> predict w r s = (Inr resp, s') \<Longrightarrow> make_prediction w r s = (Inr resp, s')"
  using predict_Inr predict_with_validation_Inr by blast

subsection \<open>Predictions one after the other\<close>

lemma prediction_failed_eq:
  "prediction_failed e v s =
     (Inl (prediction_error e v),
      record_prediction_error v
        (case e of FileNotFoundError m \<Rightarrow> ''model_not_found'' | _ \<Rightarrow> exn_type_name e) s)"
  by (cases e) (simp_all add: prediction_failed_def prediction_error_def)

lemma joblib_loads_metrics:
  "joblib_loads p (record_prediction_error v l s) = joblib_loads p s"
  "joblib_loads p (record_inference_latency v d s) = joblib_loads p s"
  "joblib_loads p (record_prediction_request v l s) = joblib_loads p s"
  by (simp_all add: record_prediction_error_def record_inference_latency_def
        record_prediction_request_def joblib_loads_emit)

lemma metrics_registry:
  "model_registry (record_prediction_error v l s) = model_registry s"
  "model_registry (record_inference_latency v d s) = model_registry s"
  "model_registry (record_prediction_request v l s) = model_registry s"
  by (simp_all add: record_prediction_error_def record_inference_latency_def
        record_prediction_request_def emit_registry)

lemma make_prediction_via_get_model:
  assumes "get_model w (Some v) (snd (now w s)) = (g, s1)"
    and "v = version_or (version r) (get_active_version s)"
  shows "prediction_outcome (fst (make_prediction w r s)) =
           (case g of Inl e \<Rightarrow> Inl (prediction_error e v) | Inr m \<Rightarrow> served w m r v) \<and>
         model_registry (snd (make_prediction w r s)) = model_registry s1 \<and>
         joblib_loads p (snd (make_prediction w r s)) = joblib_loads p s1"
proof -
  have v: "version_or (version r) (get_active_version (snd (now w s))) = v"
    using assms(2) by (simp add: get_active_version_def now_registry)
  have mp: "make_prediction w r s =
     (case g of
        Inl e \<Rightarrow> prediction_failed e v s1
      | Inr model \<Rightarrow>
          (case model_predict w model (features r) of
             Inl e \<Rightarrow> prediction_failed e v s1
           | Inr raw \<Rightarrow>
               (case unwrap_prediction raw of
                  Inl e \<Rightarrow> prediction_failed e v s1
                | Inr q \<Rightarrow>
                    let (t, s2) = now w s1;
                        ms = (t - fst (now w s)) * 1000;
                        s3 = record_inference_latency v (ms / 1000) s2;
                        s4 = record_prediction_request v ''success'' s3
                    in case validate_prediction q of
                         Inl e \<Rightarrow> prediction_failed e v s4
                       | Inr q' \<Rightarrow>
                           (Inr \<lparr>prediction = q', model_version = v, latency_ms = ms\<rparr>,
                            s4))))"
    unfolding make_prediction_def Let_def case_prod_beta v assms(1) fst_conv snd_conv
    by (rule refl)
  show ?thesis
    by (simp add: mp prediction_failed_eq prediction_outcome_def served_def Let_def
          case_prod_beta joblib_loads_metrics metrics_registry joblib_loads_now now_registry
          split: sum.splits)
qed

lemma prediction_hit:
  assumes "models (model_registry s) v = Some m"
    and "v = version_or (version r) (get_active_version s)"
  shows "prediction_outcome (fst (make_prediction w r s)) = served w m r v \<and>
         model_registry (snd (make_prediction w r s)) = model_registry s \<and>
         joblib_loads p (snd (make_prediction w r s)) = joblib_loads p s"
proof -
  let ?s0 = "snd (now w s)"
  have "models (model_registry ?s0) v = Some m" using assms(1) by (simp add: now_registry)
  moreover have "v = version_or (Some v) (active_version (model_registry ?s0))"
    using assms(2) by (simp add: now_registry get_active_version_def version_or_idem)
  ultimately have "get_model w (Some v) ?s0 = (Inr m, ?s0)" by (rule get_model_hit)
  from make_prediction_via_get_model [OF this assms(2), of p] show ?thesis
    by (simp add: now_registry joblib_loads_now)
qed

lemma prediction_miss:
  assumes "models (model_registry s) v = None"
    and "v = version_or (version r) (get_active_version s)"
  shows "(\<not> path_exists w (get_model_path w v) \<longrightarrow>
            prediction_outcome (fst (make_prediction w r s)) =
              Inl (ValueError (''Model version '' @ [CHR 0x27] @ v @ [CHR 0x27] @ '' not found'')) \<and>
            model_registry (snd (make_prediction w r s)) = model_registry s \<and>
            joblib_loads p (snd (make_prediction w r s)) = joblib_loads p s) \<and>
         (\<forall>e. path_exists w (get_model_path w v) \<and> joblib_load w (get_model_path w v) = Inl e \<longrightarrow>
            prediction_outcome (fst (make_prediction w r s)) =
              Inl (RuntimeError (''Prediction failed: Failed to load model '' @ v @ '': '' @ exn_str e)) \<and>
            model_registry (snd (make_prediction w r s)) = model_registry s \<and>
            joblib_loads (get_model_path w v) (snd (make_prediction w r s))
              = Suc (joblib_loads (get_model_path w v) s)) \<and>
         (\<forall>m. path_exists w (get_model_path w v) \<and> joblib_load w (get_model_path w v) = Inr m \<longrightarrow>
            prediction_outcome (fst (make_prediction w r s)) = served w m r v \<and>
            models (model_registry (snd (make_prediction w r s))) v = Some m \<and>
            active_version (model_registry (snd (make_prediction w r s)))
              = active_version (model_registry s) \<and>
            joblib_loads (get_model_path w v) (snd (make_prediction w r s))
              = Suc (joblib_loads (get_model_path w v) s))"
proof -
  let ?s0 = "snd (now w s)"
  have miss: "models (model_registry ?s0) v = None" using assms(1) by (simp add: now_registry)
  have eff: "v = version_or (Some v) (active_version (model_registry ?s0))"
    using assms(2) by (simp add: now_registry get_active_version_def version_or_idem)
  have a: "prediction_outcome (fst (make_prediction w r s)) =
              Inl (ValueError (''Model version '' @ [CHR 0x27] @ v @ [CHR 0x27] @ '' not found'')) \<and>
            model_registry (snd (make_prediction w r s)) = model_registry s \<and>
            joblib_loads p (snd (make_prediction w r s)) = joblib_loads p s"
    if "\<not> path_exists w (get_model_path w v)"
    using make_prediction_via_get_model [OF get_model_missing [OF miss eff that] assms(2), of p]
    by (simp add: prediction_error_def now_registry joblib_loads_now)
  have b: "prediction_outcome (fst (make_prediction w r s)) =
              Inl (RuntimeError (''Prediction failed: Failed to load model '' @ v @ '': '' @ exn_str e)) \<and>
            model_registry (snd (make_prediction w r s)) = model_registry s \<and>
            joblib_loads (get_model_path w v) (snd (make_prediction w r s))
              = Suc (joblib_loads (get_model_path w v) s)"
    if "path_exists w (get_model_path w v)" and "joblib_load w (get_model_path w v) = Inl e" for e
    using make_prediction_via_get_model [OF get_model_corrupt [OF miss eff that] assms(2),
        of "get_model_path w v"]
    by (simp add: prediction_error_def now_registry emit_registry joblib_loads_now joblib_loads_emit)
  have c: "prediction_outcome (fst (make_prediction w r s)) = served w m r v \<and>
            models (model_registry (snd (make_prediction w r s))) v = Some m \<and>
            active_version (model_registry (snd (make_prediction w r s)))
              = active_version (model_registry s) \<and>
            joblib_loads (get_model_path w v) (snd (make_prediction w r s))
              = Suc (joblib_loads (get_model_path w v) s)"
    if "path_exists w (get_model_path w v)" and "joblib_load w (get_model_path w v) = Inr m" for m
    using make_prediction_via_get_model [OF get_model_ok [OF miss eff that] assms(2),
        of "get_model_path w v"]
      load_model_ok_cached [OF that, of ?s0] load_model_loads [OF that(1), of ?s0]
    by (simp add: now_registry joblib_loads_now)
  show ?thesis using a b c by blast
qed

lemma make_prediction_times_stable:
  assumes "\<And>s. model_registry s = R \<Longrightarrow>
             prediction_outcome (fst (make_prediction w r s)) = out \<and>
             model_registry (snd (make_prediction w r s)) = R \<and>
             joblib_loads p (snd (make_prediction w r s)) = joblib_loads p s + k"
  shows "model_registry s = R \<Longrightarrow>
         map prediction_outcome (fst (make_prediction_times w r n s)) = replicate n out \<and>
         model_registry (snd (make_prediction_times w r n s)) = R \<and>
         joblib_loads p (snd (make_prediction_times w r n s)) = joblib_loads p s + n * k"
proof (induction n arbitrary: s)
  case 0
  then show ?case by simp
next
  case (Suc n)
  obtain x s1 where mp: "make_prediction w r s = (x, s1)"
    by (cases "make_prediction w r s") blast
  obtain xs s2 where mt: "make_prediction_times w r n s1 = (xs, s2)"
    by (cases "make_prediction_times w r n s1") blast
  from assms [OF Suc.prems] mp
  have x: "prediction_outcome x = out" and r1: "model_registry s1 = R"
    and l1: "joblib_loads p s1 = joblib_loads p s + k"
    by simp_all
  from Suc.IH [OF r1] mt
  have xs: "map prediction_outcome xs = replicate n out" and r2: "model_registry s2 = R"
    and l2: "joblib_loads p s2 = joblib_loads p s1 + n * k"
    by simp_all
  have "make_prediction_times w r (Suc n) s = (x # xs, s2)"
    by (simp add: mp mt)
  with x xs r2 l1 l2 show ?case by simp
qed

lemma make_prediction_times_hit:
  assumes "models (model_registry s) v = Some m"
    and "v = version_or (version r) (get_active_version s)"
  shows "map prediction_outcome (fst (make_prediction_times w r n s)) = replicate n (served w m r v) \<and>
         joblib_loads p (snd (make_prediction_times w r n s)) = joblib_loads p s"
proof -
  have "prediction_outcome (fst (make_prediction w r t)) = served w m r v \<and>
        model_registry (snd (make_prediction w r t)) = model_registry s \<and>
        joblib_loads p (snd (make_prediction w r t)) = joblib_loads p t + 0"
    if "model_registry t = model_registry s" for t
    using prediction_hit [of t v m r w p] assms that by (simp add: get_active_version_def)
  from make_prediction_times_stable [OF this refl, of n] show ?thesis by simp
qed

lemma make_prediction_times_missing:
  assumes "models (model_registry s) v = None"
    and "v = version_or (version r) (get_active_version s)"
    and "\<not> path_exists w (get_model_path w v)"
  shows "map prediction_outcome (fst (make_prediction_times w r n s)) =
           replicate n (Inl (ValueError
             (''Model version '' @ [CHR 0x27] @ v @ [CHR 0x27] @ '' not found''))) \<and>
         model_registry (snd (make_prediction_times w r n s)) = model_registry s \<and>
         joblib_loads p (snd (make_prediction_times w r n s)) = joblib_loads p s"
proof -
  have "prediction_outcome (fst (make_prediction w r t)) =
          Inl (ValueError (''Model version '' @ [CHR 0x27] @ v @ [CHR 0x27] @ '' not found'')) \<and>
        model_registry (snd (make_prediction w r t)) = model_registry s \<and>
        joblib_loads p (snd (make_prediction w r t)) = joblib_loads p t + 0"
    if "model_registry t = model_registry s" for t
    using prediction_miss [of t v r w p] assms that by (simp add: get_active_version_def)
  from make_prediction_times_stable [OF this refl, of n] show ?thesis by simp
qed

lemma make_prediction_times_corrupt:
  assumes "models (model_registry s) v = None"
    and "v = version_or (version r) (get_active_version s)"
    and "path_exists w (get_model_path w v)"
    and "joblib_load w (get_model_path w v) = Inl e"
  shows "map prediction_outcome (fst (make_prediction_times w r n s)) =
           replicate n (Inl (RuntimeError
             (''Prediction failed: Failed to load model '' @ v @ '': '' @ exn_str e))) \<and>
         model_registry (snd (make_prediction_times w r n s)) = model_registry s \<and>
         joblib_loads (get_model_path w v) (snd (make_prediction_times w r n s))
           = joblib_loads (get_model_path w v) s + n"
proof -
  have "prediction_outcome (fst (make_prediction w r t)) =
          Inl (RuntimeError (''Prediction failed: Failed to load model '' @ v @ '': '' @ exn_str e)) \<and>
        model_registry (snd (make_prediction w r t)) = model_registry s \<and>
        joblib_loads (get_model_path w v) (snd (make_prediction w r t))
          = joblib_loads (get_model_path w v) t + 1"
    if "model_registry t = model_registry s" for t
    using prediction_miss [of t v r w "get_model_path w v"] assms that
    by (simp add: get_active_version_def)
  from make_prediction_times_stable [OF this refl, of n] show ?thesis by simp
qed

lemma make_prediction_times_ok:
  assumes "models (model_registry s) v = None"
    and "v = version_or (version r) (get_active_version s)"
    and "path_exists w (get_model_path w v)"
    and "joblib_load w (get_model_path w v) = Inr m"
  shows "map prediction_outcome (fst (make_prediction_times w r (Suc k) s))
           = replicate (Suc k) (served w m r v) \<and>
         joblib_loads (get_model_path w v) (snd (make_prediction_times w r (Suc k) s))
           = Suc (joblib_loads (get_model_path w v) s)"
proof -
  obtain x s1 where mp: "make_prediction w r s = (x, s1)"
    by (cases "make_prediction w r s") blast
  obtain xs s2 where mt: "make_prediction_times w r k s1 = (xs, s2)"
    by (cases "make_prediction_times w r k s1") blast
  from prediction_miss [OF assms(1,2), of w "get_model_path w v"] assms(3,4) mp
  have x: "prediction_outcome x = served w m r v"
    and c: "models (model_registry s1) v = Some m"
    and a: "active_version (model_registry s1) = active_version (model_registry s)"
    and l: "joblib_loads (get_model_path w v) s1 = Suc (joblib_loads (get_model_path w v) s)"
    by simp_all
  have v: "v = version_or (version r) (get_active_version s1)"
    using assms(2) a by (simp add: get_active_version_def)
  from make_prediction_times_hit [OF c v, of w k "get_model_path w v"] mt
  have xs: "map prediction_outcome xs = replicate k (served w m r v)"
    and l2: "joblib_loads (get_model_path w v) s2 = joblib_loads (get_model_path w v) s1"
    by simp_all
  have "make_prediction_times w r (Suc k) s = (x # xs, s2)"
    by (simp add: mp mt)
  with x xs l l2 show ?thesis by simp
qed

subsection \<open>A successful fetch caches\<close>

lemma get_model_caches:
  assumes "get_model w ver s = (Inr m, s')"
  shows "models (model_registry s') (version_or ver (get_active_version s)) = Some m"
  using get_model_Inr [OF assms] by (simp add: get_active_version_def)

subsection \<open>Validation\<close>

lemma np_isnan_native:
  "isinstance_int_float x \<Longrightarrow> np_native x \<Longrightarrow>
   np_isnan x = Inr (x = PyFloat NaN)"
  by (cases x rule: np_isnan.cases) simp_all

lemma np_isinf_native:
  "isinstance_int_float x \<Longrightarrow> np_native x \<Longrightarrow>
   np_isinf x = Inr (x = PyFloat PosInf \<or> x = PyFloat NegInf)"
  by (cases x rule: np_isinf.cases) simp_all

lemma spec_finite_numeric_iff:
  "spec_finite_numeric x =
     (isinstance_int_float x \<and> x \<noteq> PyFloat NaN \<and> x \<noteq> PyFloat PosInf \<and> x \<noteq> PyFloat NegInf)"
  by (cases x rule: spec_finite_numeric.cases) simp_all

lemma validate_loop_native:
  "\<forall>x \<in> set fs. np_native x \<Longrightarrow>
   validate_loop fs = Inr (\<forall>x \<in> set fs. spec_finite_numeric x)"
proof (induction fs)
  case Nil
  show ?case by simp
next
  case (Cons x fs)
  show ?case
  proof (cases "isinstance_int_float x")
    case False
    then show ?thesis by (simp add: spec_finite_numeric_iff)
  next
    case True
    with Cons.prems have n: "np_isnan x = Inr (x = PyFloat NaN)"
      and i: "np_isinf x = Inr (x = PyFloat PosInf \<or> x = PyFloat NegInf)"
      by (simp_all add: np_isnan_native np_isinf_native)
    from Cons.prems have ih: "validate_loop fs = Inr (\<forall>x \<in> set fs. spec_finite_numeric x)"
      by (intro Cons.IH) simp
    show ?thesis using True n i ih by (auto simp: spec_finite_numeric_iff split: bool.splits)
  qed
qed

lemma validate_features_native:
  "\<forall>x \<in> set fs. np_native x \<Longrightarrow>
   validate_features fs = Inr (fs \<noteq> [] \<and> (\<forall>x \<in> set fs. spec_finite_numeric x))"
  by (simp add: validate_features_def validate_loop_native)

subsection \<open>The example deployment\<close>

lemma example_paths:
  "get_model_path example_world ''v1'' = ''models/v1/model.pkl''"
  "get_model_path example_world ''v2'' = ''models/v2/model.pkl''"
  "get_model_path example_world ''v3'' = ''models/v3/model.pkl''"
  "get_model_path example_world ''v9'' = ''models/v9/model.pkl''"
  by (simp_all add: get_model_path_def path_join_def example_world_def)

lemma example_active: "get_active_version (init example_world) = ''v1''"
  by (simp add: get_active_version_def init_def metrics_set_active_version_registry)
     (simp add: example_world_def)

lemma example_v1: 
  "path_exists example_world (get_model_path example_world ''v1'')"
  "joblib_load example_world (get_model_path example_world ''v1'') = Inr ''artifact-1''"
  by (simp_all add: example_paths) (simp_all add: example_world_def)

lemma example_v3:
  "path_exists example_world (get_model_path example_world ''v3'')"
  "joblib_load example_world (get_model_path example_world ''v3'')
     = Inl (OtherException ''UnpicklingError'' ''invalid load key'')"
  by (simp_all add: example_paths) (simp_all add: example_world_def)

lemma example_repaired_v3:
  "get_model_path example_world_repaired ''v3'' = ''models/v3/model.pkl''"
  "path_exists example_world_repaired ''models/v3/model.pkl''"
  "joblib_load example_world_repaired ''models/v3/model.pkl'' = Inr ''artifact-3''"
  by (simp_all add: example_world_repaired_def get_model_path_def path_join_def)
     (simp_all add: example_world_def)

lemma example_init_not_loaded: "\<not> is_version_loaded (init example_world) v"
  by (simp add: is_version_loaded_def init_def metrics_set_active_version_registry)

lemma example_init_loads: "joblib_loads p (init example_world) = 0"
  by (simp add: joblib_loads_def init_def metrics_set_active_version_def emit_def)

lemma example_loaded_registry:
  "model_registry example_loaded =
     \<lparr>models = [''v1'' \<mapsto> ''artifact-1''], active_version = ''v1'',
      load_times = [''v1'' \<mapsto> 1]\<rparr>"
proof -
  have a: "path_exists example_world (get_model_path example_world ''v1'')"
    by (simp add: example_paths) (simp add: example_world_def)
  have b: "joblib_load example_world (get_model_path example_world ''v1'') = Inr ''artifact-1''"
    by (simp add: example_paths) (simp add: example_world_def)
  have c: "model_registry (init example_world) =
     \<lparr>models = Map.empty, active_version = ''v1'', load_times = Map.empty\<rparr>"
    by (simp add: init_def metrics_set_active_version_registry) (simp add: example_world_def)
  have d: "clock_reads (init example_world) = 0"
    by (simp add: init_def metrics_set_active_version_def emit_def)
  have e: "time_time example_world = real"
    by (simp add: example_world_def)
  show ?thesis
    by (simp add: example_loaded_def get_model_snd version_or_def c load_model_ok [OF a b] d e)
qed

lemma example_predict_default:
  "fst (make_prediction example_world \<lparr>features = [PyInt 1], version = None\<rparr>
         (init example_world))
     = Inr \<lparr>prediction = Num (NInt 1), model_version = ''v1'', latency_ms = 3000\<rparr>"
  by code_simp

lemma example_predict_empty:
  "fst (make_prediction example_world \<lparr>features = [PyInt 1], version = Some []\<rparr>
         (init example_world))
     = Inr \<lparr>prediction = Num (NInt 1), model_version = ''v1'', latency_ms = 3000\<rparr>"
  by code_simp

lemma example_predict_v2:
  "fst (make_prediction example_world \<lparr>features = [PyInt 1], version = Some ''v2''\<rparr>
         (init example_world))
     = Inr \<lparr>prediction = Lst [Num (NInt 0), Num (NInt 0)], model_version = ''v2'', latency_ms = 3000\<rparr>"
  by code_simp

section \<open>The claims\<close>

subsection \<open>C1: simultaneous fetches of an uncached version\<close>

text \<open>
  Claim C1 says that \<open>N\<close> simultaneous fetches or predictions for an uncached
  version perform exactly one load and share its outcome, success or
  failure. The registry has no lock and no single-flight bookkeeping; what
  serialises the callers is the event loop, which runs \<open>get_model\<close> and
  \<open>make_prediction\<close> (neither has a suspension point) to the end for one
  caller before the next. So \<open>N\<close> simultaneous callers are \<open>N\<close> calls in a
  row: \<open>get_model_times\<close> and \<open>make_prediction_times\<close>.

  Claim C1, as amended. Let \<open>v\<close> be the version the calls resolve to, not in
  the cache, and let \<open>n > 0\<close> calls run one after the other against the same
  outside world.
  \<^item> If the artifact of \<open>v\<close> deserialises to \<open>m\<close>, \<open>joblib.load\<close> is called
    exactly once more on its path; every fetch returns \<open>m\<close> and every
    prediction is served by \<open>m\<close>.
  \<^item> If \<open>joblib.load\<close> fails, every caller receives the same \<open>RuntimeError\<close>
    and nothing is cached, but \<open>joblib.load\<close> is called \<open>n\<close> more times: each
    caller repeats the load.
  \<^item> If the file is missing, every caller receives the same error
    (\<open>FileNotFoundError\<close> from a fetch, \<open>ValueError\<close> from a prediction),
    nothing is cached and \<open>joblib.load\<close> is not called.
\<close>

theorem sequential_calls_load_once:
  assumes "\<not> is_version_loaded s v"
    and "v = version_or ver (get_active_version s)"
    and "v = version_or (version r) (get_active_version s)"
    and "0 < n"
  shows "(\<forall>m. path_exists w (get_model_path w v) \<and> joblib_load w (get_model_path w v) = Inr m \<longrightarrow>
            fst (get_model_times w ver n s) = replicate n (Inr m) \<and>
            joblib_loads (get_model_path w v) (snd (get_model_times w ver n s))
              = joblib_loads (get_model_path w v) s + 1 \<and>
            map prediction_outcome (fst (make_prediction_times w r n s))
              = replicate n (served w m r v) \<and>
            joblib_loads (get_model_path w v) (snd (make_prediction_times w r n s))
              = joblib_loads (get_model_path w v) s + 1) \<and>
         (\<forall>e. path_exists w (get_model_path w v) \<and> joblib_load w (get_model_path w v) = Inl e \<longrightarrow>
            fst (get_model_times w ver n s) =
              replicate n (Inl (RuntimeError (''Failed to load model '' @ v @ '': '' @ exn_str e))) \<and>
            joblib_loads (get_model_path w v) (snd (get_model_times w ver n s))
              = joblib_loads (get_model_path w v) s + n \<and>
            \<not> is_version_loaded (snd (get_model_times w ver n s)) v \<and>
            map prediction_outcome (fst (make_prediction_times w r n s)) =
              replicate n (Inl (RuntimeError
                (''Prediction failed: Failed to load model '' @ v @ '': '' @ exn_str e))) \<and>
            joblib_loads (get_model_path w v) (snd (make_prediction_times w r n s))
              = joblib_loads (get_model_path w v) s + n \<and>
            \<not> is_version_loaded (snd (make_prediction_times w r n s)) v) \<and>
         (\<not> path_exists w (get_model_path w v) \<longrightarrow>
            fst (get_model_times w ver n s) =
              replicate n (Inl (FileNotFoundError (''Model not found: '' @ get_model_path w v))) \<and>
            snd (get_model_times w ver n s) = s \<and>
            map prediction_outcome (fst (make_prediction_times w r n s)) =
              replicate n (Inl (ValueError
                (''Model version '' @ [CHR 0x27] @ v @ [CHR 0x27] @ '' not found''))) \<and>
            joblib_loads (get_model_path w v) (snd (make_prediction_times w r n s))
              = joblib_loads (get_model_path w v) s \<and>
            \<not> is_version_loaded (snd (make_prediction_times w r n s)) v)"
proof -
  have miss: "models (model_registry s) v = None"
    using assms(1) by (simp add: is_version_loaded_def)
  have eff: "v = version_or ver (active_version (model_registry s))"
    using assms(2) by (simp add: get_active_version_def)
  obtain k where n: "n = Suc k" using assms(4) by (cases n) simp_all
  have a: "fst (get_model_times w ver n s) = replicate n (Inr m) \<and>
            joblib_loads (get_model_path w v) (snd (get_model_times w ver n s))
              = joblib_loads (get_model_path w v) s + 1"
    if p: "path_exists w (get_model_path w v)" and j: "joblib_load w (get_model_path w v) = Inr m"
    for m
  proof -
    let ?s1 = "snd (load_model w v s)"
    have g: "get_model w ver s = (Inr m, ?s1)"
      using get_model_ok [OF miss eff p j] .
    have c: "models (model_registry ?s1) v = Some m"
      and a': "v = version_or ver (active_version (model_registry ?s1))"
      using load_model_ok_cached [OF p j, of s] eff by simp_all
    have "get_model_times w ver k ?s1 = (replicate k (Inr m), ?s1)"
      using get_model_times_hit [OF c a'] .
    with g n load_model_loads [OF p, of s] show ?thesis by simp
  qed
  have a2: "map prediction_outcome (fst (make_prediction_times w r n s))
              = replicate n (served w m r v) \<and>
            joblib_loads (get_model_path w v) (snd (make_prediction_times w r n s))
              = joblib_loads (get_model_path w v) s + 1"
    if p: "path_exists w (get_model_path w v)" and j: "joblib_load w (get_model_path w v) = Inr m"
    for m
    using make_prediction_times_ok [OF miss assms(3) p j, of k] n by simp
  have b: "fst (get_model_times w ver n s) =
              replicate n (Inl (RuntimeError (''Failed to load model '' @ v @ '': '' @ exn_str e))) \<and>
            joblib_loads (get_model_path w v) (snd (get_model_times w ver n s))
              = joblib_loads (get_model_path w v) s + n \<and>
            \<not> is_version_loaded (snd (get_model_times w ver n s)) v"
    if p: "path_exists w (get_model_path w v)" and j: "joblib_load w (get_model_path w v) = Inl e"
    for e
    using get_model_times_corrupt [OF p j miss eff, of n] miss
    by (simp add: is_version_loaded_def)
  have b2: "map prediction_outcome (fst (make_prediction_times w r n s)) =
              replicate n (Inl (RuntimeError
                (''Prediction failed: Failed to load model '' @ v @ '': '' @ exn_str e))) \<and>
            joblib_loads (get_model_path w v) (snd (make_prediction_times w r n s))
              = joblib_loads (get_model_path w v) s + n \<and>
            \<not> is_version_loaded (snd (make_prediction_times w r n s)) v"
    if p: "path_exists w (get_model_path w v)" and j: "joblib_load w (get_model_path w v) = Inl e"
    for e
    using make_prediction_times_corrupt [OF miss assms(3) p j, of n] miss
    by (simp add: is_version_loaded_def)
  have c: "fst (get_model_times w ver n s) =
              replicate n (Inl (FileNotFoundError (''Model not found: '' @ get_model_path w v))) \<and>
            snd (get_model_times w ver n s) = s"
    if "\<not> path_exists w (get_model_path w v)"
    using get_model_times_missing [OF miss eff that, of n] by simp
  have c2: "map prediction_outcome (fst (make_prediction_times w r n s)) =
              replicate n (Inl (ValueError
                (''Model version '' @ [CHR 0x27] @ v @ [CHR 0x27] @ '' not found''))) \<and>
            joblib_loads (get_model_path w v) (snd (make_prediction_times w r n s))
              = joblib_loads (get_model_path w v) s \<and>
            \<not> is_version_loaded (snd (make_prediction_times w r n s)) v"
    if "\<not> path_exists w (get_model_path w v)"
    using make_prediction_times_missing [OF miss assms(3) that, of n "get_model_path w v"] miss
    by (simp add: is_version_loaded_def)
  show ?thesis using a a2 b b2 c c2 by blast
qed

text \<open>
  In the example deployment three fetches of \<open>v1\<close> load it once, and three
  fetches of the broken \<open>v3\<close> call the loader three times.
\<close>

theorem sequential_calls_load_once_witness:
  "fst (get_model_times example_world (Some ''v1'') 3 (init example_world))
     = replicate 3 (Inr ''artifact-1'') \<and>
   joblib_loads (get_model_path example_world ''v1'')
     (snd (get_model_times example_world (Some ''v1'') 3 (init example_world))) = 1 \<and>
   joblib_loads (get_model_path example_world ''v1'')
     (snd (make_prediction_times example_world \<lparr>features = [PyInt 1], version = Some ''v1''\<rparr> 3
            (init example_world))) = 1 \<and>
   fst (get_model_times example_world (Some ''v3'') 3 (init example_world))
     = replicate 3 (Inl (RuntimeError ''Failed to load model v3: invalid load key'')) \<and>
   joblib_loads (get_model_path example_world ''v3'')
     (snd (get_model_times example_world (Some ''v3'') 3 (init example_world))) = 3"
proof -
  have e1: "''v1'' = version_or (Some ''v1'') (get_active_version (init example_world))"
    and e3: "''v3'' = version_or (Some ''v3'') (get_active_version (init example_world))"
    by (simp_all add: version_or_def)
  have r1: "''v1'' = version_or (version \<lparr>features = [PyInt 1], version = Some ''v1''\<rparr>)
                       (get_active_version (init example_world))"
    and r3: "''v3'' = version_or (version \<lparr>features = [PyInt 1], version = Some ''v3''\<rparr>)
                       (get_active_version (init example_world))"
    by (simp_all add: version_or_def)
  have n: "(0::nat) < 3" by simp
  show ?thesis
    using sequential_calls_load_once [OF example_init_not_loaded e1 r1 n, of example_world]
      sequential_calls_load_once [OF example_init_not_loaded e3 r3 n, of example_world]
      example_v1 example_v3
    by (simp add: example_init_loads)
qed

text \<open>
  The claim as stated fails: two callers asking for the uncached, broken
  \<open>v3\<close> trigger two loads of it, through \<open>get_model\<close> as well as through
  \<open>make_prediction\<close>.
\<close>

theorem failed_load_is_repeated:
  "\<not> is_version_loaded (init example_world) ''v3'' \<and>
   joblib_loads ''models/v3/model.pkl''
     (snd (get_model_times example_world (Some ''v3'') 2 (init example_world))) = 2 \<and>
   joblib_loads ''models/v3/model.pkl''
     (snd (make_prediction_times example_world \<lparr>features = [PyInt 1], version = Some ''v3''\<rparr> 2
            (init example_world))) = 2"
  by code_simp

subsection \<open>C2: a switch to a missing version fails and changes nothing\<close>

text \<open>
  Claim C2. When the backing store has no artifact for \<open>v\<close> (the path of
  its \<open>model.pkl\<close> does not exist), \<open>ModelRegistry.set_active_version\<close>
  returns \<open>False\<close> and the admin operation answers \<open>success = False\<close> with
  the "not found" message and the active version as it was; in both cases
  the process state after the call is the state before it, so
  \<open>get_active_version\<close> still returns the earlier value.
\<close>

theorem set_active_missing_version_fails:
  assumes "\<not> path_exists w (get_model_path w v)"
  shows "set_active_version w v s = (False, s) \<and>
         admin_set_active_version w v s =
           (\<lparr>success = False,
             message = NotFoundMessage v (get_available_versions w),
             response_active_version = get_active_version s\<rparr>, s) \<and>
         get_active_version (snd (set_active_version w v s)) = get_active_version s \<and>
         get_active_version (snd (admin_set_active_version w v s)) = get_active_version s"
  using assms by (simp add: set_active_version_def admin_set_active_version_def available_iff)

theorem set_active_missing_version_fails_witness:
  "\<not> path_exists example_world (get_model_path example_world ''v9'') \<and>
   set_active_version example_world ''v9'' (init example_world) = (False, init example_world) \<and>
   get_active_version (snd (admin_set_active_version example_world ''v9'' (init example_world))) = ''v1''"
proof -
  have h: "\<not> path_exists example_world (get_model_path example_world ''v9'')"
    by (simp add: example_paths) (simp add: example_world_def)
  have a: "get_active_version (init example_world) = ''v1''"
    by (simp add: get_active_version_def init_def metrics_set_active_version_registry)
       (simp add: example_world_def)
  show ?thesis
    using h a set_active_missing_version_fails [OF h, of "init example_world"] by simp
qed

subsection \<open>C3: the error kinds of a prediction whose model cannot be loaded\<close>

text \<open>
  Claim C3 says that a prediction whose version has no artifact fails with
  an error kind of its own, distinct from the one for malformed features.
  In the code both are a \<open>ValueError\<close>, mapped to status 400; they differ in
  their message only.

  Claim C3, as amended. Let the features be valid and the effective version
  \<open>v\<close> not be cached.
  \<^item> If the store has no artifact for \<open>v\<close>, the prediction raises
    \<open>ValueError("Model version 'v' not found")\<close>, status 400 at the
    endpoint: the same exception class as for invalid features.
  \<^item> If the artifact exists and \<open>joblib.load\<close> fails with \<open>e\<close>, the prediction
    raises \<open>RuntimeError("Prediction failed: Failed to load model v: e")\<close>,
    status 500 at the endpoint: a class different from the one for invalid
    features.
\<close>

theorem missing_model_is_value_error:
  assumes "validate_features (features r) = Inr True"
    and "v = version_or (version r) (get_active_version s)"
    and "\<not> is_version_loaded s v"
  shows "(\<not> path_exists w (get_model_path w v) \<longrightarrow>
            fst (predict_with_validation w r s) =
              Inl (ValueError (''Model version '' @ [CHR 0x27] @ v @ [CHR 0x27] @ '' not found'')) \<and>
            fst (predict w r s) =
              Inl (HTTPException 400
                     (''Model version '' @ [CHR 0x27] @ v @ [CHR 0x27] @ '' not found'')) \<and>
            raised (predict_with_validation w r s) =
              raised (predict_with_validation w (r\<lparr>features := []\<rparr>) s)) \<and>
         (\<forall>e. path_exists w (get_model_path w v) \<and> joblib_load w (get_model_path w v) = Inl e \<longrightarrow>
            fst (predict_with_validation w r s) =
              Inl (RuntimeError (''Prediction failed: Failed to load model '' @ v @ '': '' @ exn_str e)) \<and>
            fst (predict w r s) =
              Inl (HTTPException 500
                     (''Prediction failed: Failed to load model '' @ v @ '': '' @ exn_str e)) \<and>
            raised (predict_with_validation w r s) \<noteq>
              raised (predict_with_validation w (r\<lparr>features := []\<rparr>) s))"
proof -
  let ?s0 = "snd (now w s)"
  have miss: "models (model_registry ?s0) v = None"
    using assms(3) by (simp add: is_version_loaded_def now_registry)
  have eff: "v = version_or (Some v) (active_version (model_registry ?s0))"
    using assms(2) by (simp add: now_registry get_active_version_def version_or_idem)
  have pv: "predict_with_validation w r s = make_prediction w r s"
    using assms(1) by (simp add: predict_with_validation_def)
  have mp: "make_prediction w r s =
     (case get_model w (Some v) ?s0 of
        (Inl e, s1) \<Rightarrow> prediction_failed e v s1
      | (Inr model, s1) \<Rightarrow> make_prediction w r s)"
    using assms(2)
    by (simp add: make_prediction_def Let_def now_def get_active_version_def
          split: prod.splits sum.splits)
  have a: "fst (predict_with_validation w r s) =
              Inl (ValueError (''Model version '' @ [CHR 0x27] @ v @ [CHR 0x27] @ '' not found''))"
    if "\<not> path_exists w (get_model_path w v)"
    using get_model_missing [OF miss eff that] pv mp by (simp add: prediction_failed_def)
  have b: "fst (predict_with_validation w r s) =
              Inl (RuntimeError (''Prediction failed: Failed to load model '' @ v @ '': '' @ exn_str e))"
    if "path_exists w (get_model_path w v)" and "joblib_load w (get_model_path w v) = Inl e" for e
    using get_model_corrupt [OF miss eff that] pv mp by (simp add: prediction_failed_def)
  have c: "fst (predict w r s) = Inl (HTTPException 400 m)"
    if "fst (predict_with_validation w r s) = Inl (ValueError m)" for m
    using that by (auto simp: predict_def split: prod.splits)
  have d: "fst (predict w r s) = Inl (HTTPException 500 m)"
    if "fst (predict_with_validation w r s) = Inl (RuntimeError m)" for m
    using that by (auto simp: predict_def split: prod.splits)
  have e: "raised (predict_with_validation w (r\<lparr>features := []\<rparr>) s) = Some ''ValueError''"
    by (simp add: raised_def predict_with_validation_def validate_features_def)
  have f: "raised (predict_with_validation w r s) = Some ''ValueError''"
    if "fst (predict_with_validation w r s) = Inl (ValueError m)" for m
    using that by (simp add: raised_def)
  have g: "raised (predict_with_validation w r s) = Some ''RuntimeError''"
    if "fst (predict_with_validation w r s) = Inl (RuntimeError m)" for m
    using that by (simp add: raised_def)
  have h: "\<not> path_exists w (get_model_path w v) \<longrightarrow>
            fst (predict_with_validation w r s) =
              Inl (ValueError (''Model version '' @ [CHR 0x27] @ v @ [CHR 0x27] @ '' not found'')) \<and>
            fst (predict w r s) =
              Inl (HTTPException 400
                     (''Model version '' @ [CHR 0x27] @ v @ [CHR 0x27] @ '' not found'')) \<and>
            raised (predict_with_validation w r s) =
              raised (predict_with_validation w (r\<lparr>features := []\<rparr>) s)"
    using a c e f by simp
  have i: "path_exists w (get_model_path w v) \<and> joblib_load w (get_model_path w v) = Inl e \<longrightarrow>
            fst (predict_with_validation w r s) =
              Inl (RuntimeError (''Prediction failed: Failed to load model '' @ v @ '': '' @ exn_str e)) \<and>
            fst (predict w r s) =
              Inl (HTTPException 500
                     (''Prediction failed: Failed to load model '' @ v @ '': '' @ exn_str e)) \<and>
            raised (predict_with_validation w r s) \<noteq>
              raised (predict_with_validation w (r\<lparr>features := []\<rparr>) s)" for e
    using b [of e] d e g by simp
  show ?thesis using h i by blast
qed

theorem missing_model_is_value_error_witness:
  "fst (predict example_world \<lparr>features = [PyInt 1], version = Some ''v9''\<rparr> (init example_world))
     = Inl (HTTPException 400 (''Model version '' @ [CHR 0x27] @ ''v9'' @ [CHR 0x27] @ '' not found'')) \<and>
   fst (predict example_world \<lparr>features = [PyInt 1], version = Some ''v3''\<rparr> (init example_world))
     = Inl (HTTPException 500 ''Prediction failed: Failed to load model v3: invalid load key'')"
proof -
  have v: "validate_features (features \<lparr>features = [PyInt 1], version = Some ''v9''\<rparr>)
             = Inr True"
          "validate_features (features \<lparr>features = [PyInt 1], version = Some ''v3''\<rparr>)
             = Inr True"
    by (simp_all add: validate_features_def np_native_int_def)
  have e9: "''v9'' = version_or (version \<lparr>features = [PyInt 1], version = Some ''v9''\<rparr>)
              (get_active_version (init example_world))"
    by (simp add: version_or_def)
  have e3: "''v3'' = version_or (version \<lparr>features = [PyInt 1], version = Some ''v3''\<rparr>)
              (get_active_version (init example_world))"
    by (simp add: version_or_def)
  have p9: "\<not> path_exists example_world (get_model_path example_world ''v9'')"
    by (simp add: example_paths) (simp add: example_world_def)
  have p3: "path_exists example_world (get_model_path example_world ''v3'')"
    by (simp add: example_paths) (simp add: example_world_def)
  have j3: "joblib_load example_world (get_model_path example_world ''v3'')
              = Inl (OtherException ''UnpicklingError'' ''invalid load key'')"
    by (simp add: example_paths) (simp add: example_world_def)
  show ?thesis
    using missing_model_is_value_error [OF v(1) e9 example_init_not_loaded, of example_world]
      missing_model_is_value_error [OF v(2) e3 example_init_not_loaded, of example_world]
      p9 p3 j3
    by simp
qed

text \<open>
  The claim as stated fails: in the example deployment a prediction for the
  missing \<open>v9\<close> and a prediction with no features raise the same class of
  exception and get the same status.
\<close>

theorem missing_model_and_invalid_input_same_kind:
  "raised (predict_with_validation example_world
             \<lparr>features = [PyInt 1], version = Some ''v9''\<rparr> (init example_world))
     = Some ''ValueError'' \<and>
   raised (predict_with_validation example_world
             \<lparr>features = [], version = Some ''v9''\<rparr> (init example_world))
     = Some ''ValueError'' \<and>
   fst (predict example_world \<lparr>features = [PyInt 1], version = Some ''v9''\<rparr> (init example_world))
     = Inl (HTTPException 400 (''Model version '' @ [CHR 0x27] @ ''v9'' @ [CHR 0x27] @ '' not found'')) \<and>
   fst (predict example_world \<lparr>features = [], version = Some ''v9''\<rparr> (init example_world))
     = Inl (HTTPException 400 ''Invalid features provided'')"
  by code_simp

subsection \<open>C4: the active version stays until the next successful switch\<close>

text \<open>
  Claim C4. After a switch to \<open>v\<close> that succeeds (through the registry or
  through the admin operation), \<open>get_active_version\<close> returns \<open>v\<close>, and it
  still returns \<open>v\<close> after any sequence of further calls (fetches, loads,
  cache clears, predictions, startup, failed switches) none of which is a
  successful switch. A registry switch to a version whose artifact exists
  does succeed. By \<open>switches_iff_success\<close> the calls excluded are exactly
  the switches that report success.
\<close>

theorem active_version_stable:
  assumes "c = SetActiveVersion v \<or> c = AdminSetActiveVersion v"
    and "switches w c"
    and "\<forall>(w', c') \<in> set cs. \<not> switches w' c'"
  shows "get_active_version (step w c s) = v \<and>
         get_active_version (run cs (step w c s)) = v \<and>
         (path_exists w (get_model_path w v) \<longrightarrow> fst (set_active_version w v s) = True)"
proof -
  have "get_active_version (step w c s) = v"
    using assms(1,2)
    by (auto simp: get_active_version_def set_active_version_snd admin_set_active_version_snd)
  moreover have "get_active_version (run cs (step w c s)) = get_active_version (step w c s)"
    using assms(3) by (rule run_active)
  ultimately show ?thesis by (simp add: set_active_version_fst)
qed

theorem active_version_stable_witness:
  "get_active_version
     (run [(example_world, Predict \<lparr>features = [PyInt 1], version = Some ''v1''\<rparr>),
           (example_world, ClearCache None),
           (example_world, SetActiveVersion ''v9''),
           (example_world, GetModel (Some ''v3''))]
        (step example_world (SetActiveVersion ''v2'') (init example_world))) = ''v2''"
proof -
  have p: "\<not> path_exists example_world (get_model_path example_world ''v9'')"
    by (simp add: example_paths) (simp add: example_world_def)
  have q: "path_exists example_world (get_model_path example_world ''v2'')"
    by (simp add: example_paths) (simp add: example_world_def)
  show ?thesis
    using active_version_stable [of "SetActiveVersion ''v2''" "''v2''" example_world
        "[(example_world, Predict \<lparr>features = [PyInt 1], version = Some ''v1''\<rparr>),
          (example_world, ClearCache None),
          (example_world, SetActiveVersion ''v9''),
          (example_world, GetModel (Some ''v3''))]" "init example_world"] p q
    by simp
qed

subsection \<open>C5: a failed load is not cached\<close>

text \<open>
  Claim C5. In any state the process can reach, when a fetch fails (the
  file of the effective version \<open>v\<close> is missing, or \<open>joblib.load\<close> raises),
  the registry is exactly as before: \<open>v\<close> has no cache entry and no load
  time. The next fetch goes through the loader again, against the outside
  world as it is then: it returns the artifact if the file is good by then
  (one more call of \<open>joblib.load\<close>), fails again with a \<open>RuntimeError\<close> if
  the file still does not deserialise (one more call as well), and fails
  with a \<open>FileNotFoundError\<close> if the file is missing. The last part is about
  \<open>_load_model\<close> itself: whenever it fails, it leaves the registry untouched.
\<close>

theorem failed_load_leaves_no_entry:
  assumes "s = run cs (init w0)"
    and "get_model w ver s = (Inl e, s')"
    and "v = version_or ver (get_active_version s)"
  shows "model_registry s' = model_registry s \<and>
         \<not> is_version_loaded s' v \<and>
         get_load_time s' v = None \<and>
         (\<forall>w2 m. path_exists w2 (get_model_path w2 v) \<and>
                  joblib_load w2 (get_model_path w2 v) = Inr m \<longrightarrow>
            fst (get_model w2 ver s') = Inr m \<and>
            joblib_loads (get_model_path w2 v) (snd (get_model w2 ver s'))
              = Suc (joblib_loads (get_model_path w2 v) s')) \<and>
         (\<forall>w2 e2. path_exists w2 (get_model_path w2 v) \<and>
                   joblib_load w2 (get_model_path w2 v) = Inl e2 \<longrightarrow>
            fst (get_model w2 ver s')
              = Inl (RuntimeError (''Failed to load model '' @ v @ '': '' @ exn_str e2)) \<and>
            joblib_loads (get_model_path w2 v) (snd (get_model w2 ver s'))
              = Suc (joblib_loads (get_model_path w2 v) s')) \<and>
         (\<forall>w2. \<not> path_exists w2 (get_model_path w2 v) \<longrightarrow>
            get_model w2 ver s'
              = (Inl (FileNotFoundError (''Model not found: '' @ get_model_path w2 v)), s')) \<and>
         (\<forall>ea. fst (load_model wa ua sa) = Inl ea \<longrightarrow>
            model_registry (snd (load_model wa ua sa)) = model_registry sa)"
proof -
  from get_model_Inl [OF assms(2)] assms(3)
  have miss: "models (model_registry s) v = None" and reg: "model_registry s' = model_registry s"
    by (simp_all add: get_active_version_def)
  have "cache_consistent s" using assms(1) by (simp add: reachable_consistent)
  with miss have lt: "load_times (model_registry s) v = None"
    by (simp add: cache_consistent_def)
  have miss': "models (model_registry s') v = None" using miss reg by simp
  have eff: "v = version_or ver (active_version (model_registry s'))"
    using assms(3) reg by (simp add: get_active_version_def)
  have a: "fst (get_model w2 ver s') = Inr m \<and>
            joblib_loads (get_model_path w2 v) (snd (get_model w2 ver s'))
              = Suc (joblib_loads (get_model_path w2 v) s')"
    if "path_exists w2 (get_model_path w2 v)" and "joblib_load w2 (get_model_path w2 v) = Inr m"
    for w2 m
    using get_model_ok [OF miss' eff that] load_model_loads [OF that(1), of s'] by simp
  have b: "fst (get_model w2 ver s')
              = Inl (RuntimeError (''Failed to load model '' @ v @ '': '' @ exn_str e2)) \<and>
            joblib_loads (get_model_path w2 v) (snd (get_model w2 ver s'))
              = Suc (joblib_loads (get_model_path w2 v) s')"
    if "path_exists w2 (get_model_path w2 v)" and "joblib_load w2 (get_model_path w2 v) = Inl e2"
    for w2 e2
    using get_model_corrupt [OF miss' eff that]
    by (simp add: joblib_loads_emit joblib_loads_now)
  have c: "get_model w2 ver s'
              = (Inl (FileNotFoundError (''Model not found: '' @ get_model_path w2 v)), s')"
    if "\<not> path_exists w2 (get_model_path w2 v)" for w2
    using get_model_missing [OF miss' eff that] .
  have d: "model_registry (snd (load_model wa ua sa)) = model_registry sa"
    if "fst (load_model wa ua sa) = Inl ea" for ea
    using load_model_registry [of wa ua sa] that by auto
  show ?thesis
    using reg miss lt a b c d by (simp add: is_version_loaded_def get_load_time_def)
qed

text \<open>
  In the example deployment a fetch of the broken \<open>v3\<close> leaves no entry,
  and the fetch after the file has been repaired returns the new artifact.
\<close>

theorem failed_load_leaves_no_entry_witness:
  "\<not> is_version_loaded
       (snd (get_model example_world (Some ''v3'') (run [] (init example_world)))) ''v3'' \<and>
   get_load_time
       (snd (get_model example_world (Some ''v3'') (run [] (init example_world)))) ''v3'' = None \<and>
   fst (get_model example_world_repaired (Some ''v3'')
          (snd (get_model example_world (Some ''v3'') (run [] (init example_world)))))
     = Inr ''artifact-3''"
proof -
  let ?s = "run [] (init example_world)"
  have m: "models (model_registry ?s) ''v3'' = None"
    using example_init_not_loaded [of "''v3''"] by (simp add: is_version_loaded_def)
  have e: "''v3'' = version_or (Some ''v3'') (active_version (model_registry ?s))"
    by (simp add: version_or_def)
  have g: "get_model example_world (Some ''v3'') ?s =
     (Inl (RuntimeError (''Failed to load model '' @ ''v3'' @ '': '' @
             exn_str (OtherException ''UnpicklingError'' ''invalid load key''))),
      snd (get_model example_world (Some ''v3'') ?s))"
    using get_model_corrupt [OF m e example_v3] by simp
  have e': "''v3'' = version_or (Some ''v3'') (get_active_version ?s)"
    by (simp add: version_or_def)
  show ?thesis
    using failed_load_leaves_no_entry [OF refl g e',
        where wa = example_world and ua = "''v3''" and sa = "init example_world"]
    by (simp add: example_repaired_v3)
qed

subsection \<open>C6: feature validation\<close>


text \<open>
  Away from that case the claim holds. When every int among the features
  fits a native integer type, \<open>validate_features\<close> accepts exactly the
  non-empty lists of finite numeric values; a refused list gives
  \<open>ValueError("Invalid features provided")\<close> (status 400 at the endpoint)
  with the process state, cache, loader calls and metrics included, as it
  was before the call; an accepted list goes on to \<open>make_prediction\<close>.
\<close>

lemma native_features_validated:
  assumes "\<forall>x \<in> set (features r). np_native x"
  shows "validate_features (features r) =
           Inr (features r \<noteq> [] \<and> (\<forall>x \<in> set (features r). spec_finite_numeric x)) \<and>
         (features r = [] \<or> (\<exists>x \<in> set (features r). \<not> spec_finite_numeric x) \<longrightarrow>
            predict_with_validation w r s = (Inl (ValueError ''Invalid features provided''), s) \<and>
            predict w r s = (Inl (HTTPException 400 ''Invalid features provided''), s)) \<and>
         (features r \<noteq> [] \<and> (\<forall>x \<in> set (features r). spec_finite_numeric x) \<longrightarrow>
            predict_with_validation w r s = make_prediction w r s)"
proof -
  note v = validate_features_native [OF assms]
  have a: "predict_with_validation w r s = (Inl (ValueError ''Invalid features provided''), s)"
    if "features r = [] \<or> (\<exists>x \<in> set (features r). \<not> spec_finite_numeric x)"
    using that v by (auto simp: predict_with_validation_def split: bool.splits)
  have b: "predict w r s = (Inl (HTTPException 400 ''Invalid features provided''), s)"
    if "features r = [] \<or> (\<exists>x \<in> set (features r). \<not> spec_finite_numeric x)"
    using a [OF that] by (simp add: predict_def)
  have c: "predict_with_validation w r s = make_prediction w r s"
    if "features r \<noteq> [] \<and> (\<forall>x \<in> set (features r). spec_finite_numeric x)"
    using that v by (auto simp: predict_with_validation_def split: bool.splits)
  show ?thesis using v a b c by blast
qed

subsection \<open>C7: the effective version of a prediction\<close>

text \<open>
  Claim C7 says that the effective version is the override whenever one is
  given. The override is tested for truthiness, so the empty string, which
  the request schema admits, is not an override of its own.

  Claim C7, as amended. For every prediction call the effective version is
  the override when a non-empty one is given, and the active version when
  none is given or the empty string is given: the outcome of the call,
  failures included, is the outcome of serving the request with that
  version (\<open>serve_version\<close>). When the call succeeds, through
  \<open>make_prediction\<close>, \<open>predict_with_validation\<close> or the endpoint, the response
  reports that version, it carries what the response schema makes of the
  unwrapped output of the artifact cached for that version, and the active
  version is as it was before the call.
\<close>

theorem effective_version_reported:
  "(\<forall>v. version r = Some v \<and> v \<noteq> [] \<longrightarrow>
       prediction_outcome (fst (make_prediction w r s)) = serve_version w r s v) \<and>
   (version r = None \<or> version r = Some [] \<longrightarrow>
       prediction_outcome (fst (make_prediction w r s))
         = serve_version w r s (get_active_version s)) \<and>
   (\<forall>resp s'.
       make_prediction w r s = (Inr resp, s') \<or>
       predict_with_validation w r s = (Inr resp, s') \<or>
       predict w r s = (Inr resp, s') \<longrightarrow>
         (\<forall>v. version r = Some v \<and> v \<noteq> [] \<longrightarrow> model_version resp = v) \<and>
         (version r = None \<or> version r = Some [] \<longrightarrow>
            model_version resp = get_active_version s) \<and>
         (\<exists>m raw p. models (model_registry s') (model_version resp) = Some m \<and>
                    model_predict w m (features r) = Inr raw \<and>
                    unwrap_prediction raw = Inr p \<and>
                    validate_prediction p = Inr (prediction resp)) \<and>
         get_active_version s' = get_active_version s)"
proof -
  have out: "prediction_outcome (fst (make_prediction w r s)) =
     serve_version w r s (version_or (version r) (get_active_version s))"
  proof -
    let ?v = "version_or (version r) (get_active_version s)"
    let ?s0 = "snd (now w s)"
    obtain g s1 where gm: "get_model w (Some ?v) ?s0 = (g, s1)"
      by (cases "get_model w (Some ?v) ?s0") blast
    have "fst (get_model w (Some ?v) ?s0) = fetch_outcome w s ?v"
      by (simp add: get_model_def load_model_def fetch_outcome_def get_active_version_def
            version_or_def Let_def now_def emit_def record_model_load_time_def
            split: option.splits sum.splits prod.splits)
    with gm have g: "g = fetch_outcome w s ?v" by simp
    have v: "version_or (version r) (get_active_version ?s0) = ?v"
      by (simp add: get_active_version_def now_def)
    have mp: "make_prediction w r s =
       (case g of
          Inl e \<Rightarrow> prediction_failed e ?v s1
        | Inr model \<Rightarrow>
            (case model_predict w model (features r) of
               Inl e \<Rightarrow> prediction_failed e ?v s1
             | Inr raw \<Rightarrow>
                 (case unwrap_prediction raw of
                    Inl e \<Rightarrow> prediction_failed e ?v s1
                  | Inr q \<Rightarrow>
                      let (t, s2) = now w s1;
                          ms = (t - fst (now w s)) * 1000;
                          s3 = record_inference_latency ?v (ms / 1000) s2;
                          s4 = record_prediction_request ?v ''success'' s3
                      in case validate_prediction q of
                           Inl e \<Rightarrow> prediction_failed e ?v s4
                         | Inr q' \<Rightarrow>
                             (Inr \<lparr>prediction = q', model_version = ?v, latency_ms = ms\<rparr>,
                              s4))))"
      unfolding make_prediction_def Let_def case_prod_beta v gm fst_conv snd_conv
      by (rule refl)
    have pf: "fst (prediction_failed e ?v t) = Inl (prediction_error e ?v)"
      for e and t :: "'a process"
      by (cases e) (simp_all add: prediction_failed_def prediction_error_def)
    show ?thesis
      unfolding mp g [symmetric] serve_version_def served_def
      by (simp add: pf prediction_outcome_def Let_def case_prod_beta split: sum.splits)
  qed
  have a: "prediction_outcome (fst (make_prediction w r s)) = serve_version w r s v"
    if "version r = Some v \<and> v \<noteq> []" for v
    using out that by (simp add: version_or_def)
  have b: "prediction_outcome (fst (make_prediction w r s))
             = serve_version w r s (get_active_version s)"
    if "version r = None \<or> version r = Some []"
    using out that by (auto simp: version_or_def)
  have c: "(\<forall>v. version r = Some v \<and> v \<noteq> [] \<longrightarrow> model_version resp = v) \<and>
         (version r = None \<or> version r = Some [] \<longrightarrow>
            model_version resp = get_active_version s) \<and>
         (\<exists>m raw p. models (model_registry s') (model_version resp) = Some m \<and>
                    model_predict w m (features r) = Inr raw \<and>
                    unwrap_prediction raw = Inr p \<and>
                    validate_prediction p = Inr (prediction resp)) \<and>
         get_active_version s' = get_active_version s"
    if h: "make_prediction w r s = (Inr resp, s') \<or>
           predict_with_validation w r s = (Inr resp, s') \<or>
           predict w r s = (Inr resp, s')" for resp s'
  proof -
    have mp: "make_prediction w r s = (Inr resp, s')"
      using h by (rule any_prediction_Inr)
    from make_prediction_Inr [OF mp]
    have v: "model_version resp = version_or (version r) (get_active_version s)" by blast
    have act: "get_active_version s' = get_active_version s"
      using make_prediction_active [of w r s] mp by (simp add: get_active_version_def)
    from v act make_prediction_uses_cached [OF mp] show ?thesis
      by (auto simp: version_or_def)
  qed
  show ?thesis using a b c by blast
qed

text \<open>
  In the example deployment, with \<open>v1\<close> active: the override \<open>v2\<close> is served
  by \<open>v2\<close>, the empty override by \<open>v1\<close>, and the override \<open>v9\<close>, which has no
  file, fails with the error for \<open>v9\<close>.
\<close>

theorem effective_version_reported_witness:
  "prediction_outcome
     (fst (make_prediction example_world \<lparr>features = [PyInt 1], version = Some ''v2''\<rparr>
        (init example_world)))
     = Inr (Lst [Num (NInt 0), Num (NInt 0)], ''v2'') \<and>
   prediction_outcome
     (fst (make_prediction example_world \<lparr>features = [PyInt 1], version = Some []\<rparr>
        (init example_world)))
     = Inr (Num (NInt 1), ''v1'') \<and>
   prediction_outcome
     (fst (make_prediction example_world \<lparr>features = [PyInt 1], version = Some ''v9''\<rparr>
        (init example_world)))
     = Inl (ValueError (''Model version '' @ [CHR 0x27] @ ''v9'' @ [CHR 0x27] @ '' not found''))"
proof -
  have a: "serve_version example_world \<lparr>features = [PyInt 1], version = Some ''v2''\<rparr>
             (init example_world) ''v2'' = Inr (Lst [Num (NInt 0), Num (NInt 0)], ''v2'')"
    by code_simp
  have b: "serve_version example_world \<lparr>features = [PyInt 1], version = Some []\<rparr>
             (init example_world) (get_active_version (init example_world))
           = Inr (Num (NInt 1), ''v1'')"
    by code_simp
  have c: "serve_version example_world \<lparr>features = [PyInt 1], version = Some ''v9''\<rparr>
             (init example_world) ''v9''
           = Inl (ValueError (''Model version '' @ [CHR 0x27] @ ''v9'' @ [CHR 0x27] @ '' not found''))"
    by code_simp
  show ?thesis
    using effective_version_reported [of "\<lparr>features = [PyInt 1], version = Some ''v2''\<rparr>"
        example_world "init example_world"]
      effective_version_reported [of "\<lparr>features = [PyInt 1], version = Some []\<rparr>"
        example_world "init example_world"]
      effective_version_reported [of "\<lparr>features = [PyInt 1], version = Some ''v9''\<rparr>"
        example_world "init example_world"]
      a b c
    by simp
qed

text \<open>
  The claim as stated fails: a request that gives the empty string as its
  override is answered by the active version \<open>v1\<close>.
\<close>

theorem empty_override_reports_active:
  "fst (make_prediction example_world \<lparr>features = [PyInt 1], version = Some []\<rparr>
         (init example_world))
     = Inr \<lparr>prediction = Num (NInt 1), model_version = ''v1'', latency_ms = 3000\<rparr> \<and>
   model_version \<lparr>prediction = Num (NInt 1), model_version = ''v1'', latency_ms = 3000\<rparr> \<noteq> []"
  using example_predict_empty by simp

subsection \<open>C8: a one-element output is unwrapped\<close>

text \<open>
  Claim C8 says that a successful prediction returns the single element of
  a one-element output, and any other output unchanged.
  \<open>make_prediction\<close> does unwrap so, but it then hands the value to the
  \<open>PredictionResponse\<close> constructor, whose \<open>prediction\<close> field tries \<open>int\<close>
  before \<open>float\<close>: a float is truncated to an int.
  \<open>test_prediction_with_array_output\<close> expects \<open>[0.1, 0.9]\<close> for the output
  \<open>[[0.1, 0.9]]\<close>.

  Claim C8, at the failing inputs. In the example deployment the regressor
  \<open>v4\<close> answers \<open>[2.75]\<close> and the prediction returned is \<open>2\<close>, not the element
  \<open>2.75\<close>; \<open>v2\<close> answers \<open>[[0.1, 0.9]]\<close> and the prediction returned is
  \<open>[0, 0]\<close>, not the element \<open>[0.1, 0.9]\<close>.
\<close>

theorem float_prediction_truncated:
  "model_predict example_world ''artifact-4'' [PyInt 1]
     = Inr (Lst [Num (NFloat (Finite (11 / 4)))]) \<and>
   fst (make_prediction example_world \<lparr>features = [PyInt 1], version = Some ''v4''\<rparr>
          (init example_world))
     = Inr \<lparr>prediction = Num (NInt 2), model_version = ''v4'', latency_ms = 3000\<rparr> \<and>
   model_predict example_world ''artifact-2'' [PyInt 1]
     = Inr (Lst [Lst [Num (NFloat (Finite (1 / 10))), Num (NFloat (Finite (9 / 10)))]]) \<and>
   fst (make_prediction example_world \<lparr>features = [PyInt 1], version = Some ''v2''\<rparr>
          (init example_world))
     = Inr \<lparr>prediction = Lst [Num (NInt 0), Num (NInt 0)], model_version = ''v2'',
            latency_ms = 3000\<rparr>"
  by code_simp

subsection \<open>C9: evicting a version that is not cached\<close>

text \<open>
  Claim C9 says that evicting an absent version changes nothing, for every
  version. \<open>clear_cache\<close> tests its argument for truthiness, so the empty
  string, which the cache-clear endpoint passes on for \<open>?version=\<close>, empties
  the whole cache.

  Claim C9, as amended. In any state the process can reach, evicting a
  non-empty version that is not cached leaves the process state unchanged,
  through the registry and through the admin operation, and nothing is
  raised. For every argument, evicting twice in a row gives the state that
  evicting once gives.
\<close>

theorem evict_absent_version:
  assumes "v \<noteq> []" and "\<not> is_version_loaded (run cs (init w0)) v"
  shows "clear_cache (Some v) (run cs (init w0)) = run cs (init w0) \<and>
         snd (clear_model_cache (Some v) (run cs (init w0))) = run cs (init w0) \<and>
         clear_cache ver (clear_cache ver s) = clear_cache ver s"
proof -
  let ?s = "run cs (init w0)"
  have m: "models (model_registry ?s) v = None"
    using assms(2) by (simp add: is_version_loaded_def)
  have "cache_consistent ?s" by (rule reachable_consistent)
  with m have l: "load_times (model_registry ?s) v = None"
    by (simp add: cache_consistent_def)
  have "(models (model_registry ?s))(v := None) = models (model_registry ?s)"
    using m by (simp add: fun_upd_idem)
  moreover have "(load_times (model_registry ?s))(v := None) = load_times (model_registry ?s)"
    using l by (simp add: fun_upd_idem)
  ultimately have "clear_cache (Some v) ?s = ?s"
    using assms(1) by (simp add: clear_cache_def Let_def)
  moreover have "clear_cache ver (clear_cache ver s) = clear_cache ver s"
    by (simp add: clear_cache_def Let_def split: option.splits)
  ultimately show ?thesis by (simp add: clear_model_cache_def)
qed

theorem evict_absent_version_witness:
  "clear_cache (Some ''v2'') (run [(example_world, GetModel (Some ''v1''))] (init example_world))
     = run [(example_world, GetModel (Some ''v1''))] (init example_world)"
proof -
  have "run [(example_world, GetModel (Some ''v1''))] (init example_world) = example_loaded"
    by (simp add: example_loaded_def)
  then have "\<not> is_version_loaded
      (run [(example_world, GetModel (Some ''v1''))] (init example_world)) ''v2''"
    by (simp add: is_version_loaded_def example_loaded_registry)
  then show ?thesis
    using evict_absent_version [of "''v2''" "[(example_world, GetModel (Some ''v1''))]" example_world
        None "init example_world"]
    by simp
qed

text \<open>
  The claim as stated fails: with only \<open>v1\<close> cached, the empty string is
  absent from the cache, and evicting it removes \<open>v1\<close>.
\<close>

theorem evict_empty_string_clears_all:
  "\<not> is_version_loaded example_loaded [] \<and> is_version_loaded example_loaded ''v1'' \<and>
   \<not> is_version_loaded (clear_cache (Some []) example_loaded) ''v1'' \<and>
   clear_cache (Some []) example_loaded \<noteq> example_loaded"
proof -
  have a: "\<not> is_version_loaded example_loaded []" "is_version_loaded example_loaded ''v1''"
    by (simp_all add: is_version_loaded_def example_loaded_registry)
  have b: "\<not> is_version_loaded (clear_cache (Some []) example_loaded) ''v1''"
    by (simp add: is_version_loaded_def clear_cache_def Let_def)
  from a(2) b have "clear_cache (Some []) example_loaded \<noteq> example_loaded" by auto
  with a b show ?thesis by simp
qed

subsection \<open>C10: the empty string is no override\<close>

text \<open>
  Claim C10. Every fetch and every prediction whose version is the empty
  string resolves to the active version, whether it succeeds or fails: the
  outcome of \<open>get_model("")\<close> is the outcome of fetching the active version
  (its cached artifact, the artifact in its file, or the error for its
  missing or broken file), a successful fetch leaves the artifact cached
  under the active version, and the outcome of a prediction is the outcome
  of serving the request with the active version, which a successful
  response reports. At every layer the call gives the same result and the
  same process state as the call without a version.
\<close>

theorem empty_override_is_no_override:
  "fst (get_model w (Some []) s) = fetch_outcome w s (get_active_version s) \<and>
   (\<forall>m s'. get_model w (Some []) s = (Inr m, s') \<longrightarrow>
      models (model_registry s') (get_active_version s) = Some m) \<and>
   prediction_outcome (fst (make_prediction w (r\<lparr>version := Some []\<rparr>) s))
     = serve_version w r s (get_active_version s) \<and>
   (\<forall>resp s'. make_prediction w (r\<lparr>version := Some []\<rparr>) s = (Inr resp, s') \<longrightarrow>
      model_version resp = get_active_version s) \<and>
   get_model w (Some []) s = get_model w None s \<and>
   make_prediction w (r\<lparr>version := Some []\<rparr>) s = make_prediction w (r\<lparr>version := None\<rparr>) s \<and>
   predict_with_validation w (r\<lparr>version := Some []\<rparr>) s =
     predict_with_validation w (r\<lparr>version := None\<rparr>) s \<and>
   predict w (r\<lparr>version := Some []\<rparr>) s = predict w (r\<lparr>version := None\<rparr>) s"
proof -
  define r0 where "r0 = r\<lparr>version := Some []\<rparr>"
  have f: "fst (get_model w (Some []) s) = fetch_outcome w s (get_active_version s)"
    by (simp add: get_model_def load_model_def fetch_outcome_def get_active_version_def
          version_or_def Let_def now_def emit_def record_model_load_time_def
          split: option.splits sum.splits prod.splits)
  have out: "prediction_outcome (fst (make_prediction w r0 s)) =
     serve_version w r0 s (version_or (version r0) (get_active_version s))"
  proof -
    let ?v = "version_or (version r0) (get_active_version s)"
    let ?s0 = "snd (now w s)"
    obtain g s1 where gm: "get_model w (Some ?v) ?s0 = (g, s1)"
      by (cases "get_model w (Some ?v) ?s0") blast
    have "fst (get_model w (Some ?v) ?s0) = fetch_outcome w s ?v"
      by (simp add: get_model_def load_model_def fetch_outcome_def get_active_version_def
            version_or_def Let_def now_def emit_def record_model_load_time_def
            split: option.splits sum.splits prod.splits)
    with gm have g: "g = fetch_outcome w s ?v" by simp
    have v: "version_or (version r0) (get_active_version ?s0) = ?v"
      by (simp add: get_active_version_def now_def)
    have mp: "make_prediction w r0 s =
       (case g of
          Inl e \<Rightarrow> prediction_failed e ?v s1
        | Inr model \<Rightarrow>
            (case model_predict w model (features r0) of
               Inl e \<Rightarrow> prediction_failed e ?v s1
             | Inr raw \<Rightarrow>
                 (case unwrap_prediction raw of
                    Inl e \<Rightarrow> prediction_failed e ?v s1
                  | Inr q \<Rightarrow>
                      let (t, s2) = now w s1;
                          ms = (t - fst (now w s)) * 1000;
                          s3 = record_inference_latency ?v (ms / 1000) s2;
                          s4 = record_prediction_request ?v ''success'' s3
                      in case validate_prediction q of
                           Inl e \<Rightarrow> prediction_failed e ?v s4
                         | Inr q' \<Rightarrow>
                             (Inr \<lparr>prediction = q', model_version = ?v, latency_ms = ms\<rparr>,
                              s4))))"
      unfolding make_prediction_def Let_def case_prod_beta v gm fst_conv snd_conv
      by (rule refl)
    have pf: "fst (prediction_failed e ?v t) = Inl (prediction_error e ?v)"
      for e and t :: "'a process"
      by (cases e) (simp_all add: prediction_failed_def prediction_error_def)
    show ?thesis
      unfolding mp g [symmetric] serve_version_def served_def
      by (simp add: pf prediction_outcome_def Let_def case_prod_beta split: sum.splits)
  qed
  have a: "models (model_registry s') (get_active_version s) = Some m"
    if "get_model w (Some []) s = (Inr m, s')" for m s'
    using get_model_caches [OF that] by (simp add: version_or_def)
  have sv: "serve_version w r0 s (get_active_version s)
              = serve_version w r s (get_active_version s)"
    by (simp add: r0_def serve_version_def served_def split: sum.splits)
  have o: "prediction_outcome (fst (make_prediction w (r\<lparr>version := Some []\<rparr>) s))
             = serve_version w r s (get_active_version s)"
    using out sv by (simp add: r0_def version_or_def)
  have b: "model_version resp = get_active_version s"
    if "make_prediction w (r\<lparr>version := Some []\<rparr>) s = (Inr resp, s')" for resp s'
    using make_prediction_Inr [OF that] by (auto simp: version_or_def)
  have g: "get_model w (Some []) s = get_model w None s"
    by (simp add: get_model_def version_or_empty)
  have m: "make_prediction w (r\<lparr>version := Some []\<rparr>) s = make_prediction w (r\<lparr>version := None\<rparr>) s"
    by (simp add: make_prediction_def version_or_empty Let_def split: prod.splits sum.splits)
  have p: "predict_with_validation w (r\<lparr>version := Some []\<rparr>) s =
     predict_with_validation w (r\<lparr>version := None\<rparr>) s"
    by (simp add: predict_with_validation_def m split: sum.splits bool.splits)
  have q: "predict w (r\<lparr>version := Some []\<rparr>) s = predict w (r\<lparr>version := None\<rparr>) s"
    by (simp add: predict_def p)
  show ?thesis using f a o b g m p q by blast
qed

text \<open>
  In the example deployment, with \<open>v1\<close> active, \<open>get_model("")\<close> returns the
  artifact of \<open>v1\<close> and a prediction with the version \<open>""\<close> is served by \<open>v1\<close>.
  After a switch to \<open>v3\<close>, whose file does not deserialise, \<open>get_model("")\<close>
  fails with the error for \<open>v3\<close>, and so does the prediction.
\<close>

theorem empty_override_is_no_override_witness:
  "fst (get_model example_world (Some []) (init example_world)) = Inr ''artifact-1'' \<and>
   prediction_outcome
     (fst (make_prediction example_world \<lparr>features = [PyInt 1], version = Some []\<rparr>
        (init example_world)))
     = Inr (Num (NInt 1), ''v1'') \<and>
   fst (get_model example_world (Some []) example_switched)
     = Inl (RuntimeError ''Failed to load model v3: invalid load key'') \<and>
   prediction_outcome
     (fst (make_prediction example_world \<lparr>features = [PyInt 1], version = Some []\<rparr>
        example_switched))
     = Inl (RuntimeError ''Prediction failed: Failed to load model v3: invalid load key'')"
proof -
  let ?r = "\<lparr>features = [PyInt 1], version = Some []\<rparr>"
  have a: "fetch_outcome example_world (init example_world)
             (get_active_version (init example_world)) = Inr ''artifact-1''"
    by code_simp
  have b: "serve_version example_world ?r (init example_world)
             (get_active_version (init example_world)) = Inr (Num (NInt 1), ''v1'')"
    by code_simp
  have c: "fetch_outcome example_world example_switched (get_active_version example_switched)
             = Inl (RuntimeError ''Failed to load model v3: invalid load key'')"
    by code_simp
  have d: "serve_version example_world ?r example_switched (get_active_version example_switched)
             = Inl (RuntimeError ''Prediction failed: Failed to load model v3: invalid load key'')"
    by code_simp
  note t1 = empty_override_is_no_override [of example_world "init example_world" ?r]
  note t2 = empty_override_is_no_override [of example_world example_switched ?r]
  have p1: "fst (get_model example_world (Some []) (init example_world)) = Inr ''artifact-1''"
    using t1 [THEN conjunct1] a by (rule trans)
  have p2: "prediction_outcome (fst (make_prediction example_world ?r (init example_world)))
              = Inr (Num (NInt 1), ''v1'')"
    using t1 [THEN conjunct2, THEN conjunct2, THEN conjunct1] b by simp
  have p3: "fst (get_model example_world (Some []) example_switched)
              = Inl (RuntimeError ''Failed to load model v3: invalid load key'')"
    using t2 [THEN conjunct1] c by (rule trans)
  have p4: "prediction_outcome (fst (make_prediction example_world ?r example_switched))
              = Inl (RuntimeError ''Prediction failed: Failed to load model v3: invalid load key'')"
    using t2 [THEN conjunct2, THEN conjunct2, THEN conjunct1] d by simp
  show ?thesis using p1 p2 p3 p4 by (intro conjI)
qed

end
